theory Spec2Isabelle
  imports Complex_Main
begin

section \<open>Reachability and collision filtering of grasp candidates (reaching.cpp)\<close>

text \<open>
  The development embeds \<^verbatim>\<open>src/grasp_selection/reaching.cpp\<close>. C++ \<^verbatim>\<open>double\<close> values are
  modelled as real numbers: rounding, infinities and NaN are outside the model, so every
  numeric statement below is a statement about the exact arithmetic the code approximates.
  Container sizes and loop counters are natural numbers; the point cloud and the batch of
  candidates are far below the range of \<^verbatim>\<open>int\<close>, so no counter wraps.
\<close>

subsection \<open>Eigen vectors and matrices\<close>

datatype Vector3d = Vector3d (vx: real) (vy: real) (vz: real)

fun vplus :: "Vector3d \<Rightarrow> Vector3d \<Rightarrow> Vector3d" where
  "vplus (Vector3d a b c) (Vector3d x y z) = Vector3d (a + x) (b + y) (c + z)"

fun vminus :: "Vector3d \<Rightarrow> Vector3d \<Rightarrow> Vector3d" where
  "vminus (Vector3d a b c) (Vector3d x y z) = Vector3d (a - x) (b - y) (c - z)"

fun vscale :: "real \<Rightarrow> Vector3d \<Rightarrow> Vector3d" where
  "vscale k (Vector3d x y z) = Vector3d (k * x) (k * y) (k * z)"

fun dot :: "Vector3d \<Rightarrow> Vector3d \<Rightarrow> real" where
  "dot (Vector3d a b c) (Vector3d x y z) = a * x + b * y + c * z"

fun cross :: "Vector3d \<Rightarrow> Vector3d \<Rightarrow> Vector3d" where
  "cross (Vector3d a b c) (Vector3d x y z) =
     Vector3d (b * z - c * y) (c * x - a * z) (a * y - b * x)"

definition squaredNorm :: "Vector3d \<Rightarrow> real" where
  "squaredNorm v = dot v v"

definition vzero :: Vector3d where
  "vzero = Vector3d 0 0 0"

text \<open>A 3x3 matrix is kept by columns, the way the code reads and writes it (\<^verbatim>\<open>col(i)\<close>).\<close>

datatype Matrix3d = Matrix3d (col0: Vector3d) (col1: Vector3d) (col2: Vector3d)

definition Zero3 :: Matrix3d where
  "Zero3 = Matrix3d vzero vzero vzero"

definition mat_vec :: "Matrix3d \<Rightarrow> Vector3d \<Rightarrow> Vector3d" where
  "mat_vec M v =
     vplus (vplus (vscale (vx v) (col0 M)) (vscale (vy v) (col1 M))) (vscale (vz v) (col2 M))"

text \<open>
  \<^verbatim>\<open>Eigen::AngleAxis<double>(angle, axis)\<close> converted to a rotation matrix, entry by entry
  as Eigen's \<^verbatim>\<open>toRotationMatrix\<close> computes it. The axis is used as given (Eigen does not
  normalise it).
\<close>

definition AngleAxis :: "real \<Rightarrow> Vector3d \<Rightarrow> Matrix3d" where
  "AngleAxis angle u =
     (let s = sin angle; c = cos angle;
          ux = vx u; uy = vy u; uz = vz u;
          kx = (1 - c) * ux; ky = (1 - c) * uy
      in Matrix3d
           (Vector3d (kx * ux + c) (kx * uy + s * uz) (kx * uz - s * uy))
           (Vector3d (kx * uy - s * uz) (ky * uy + c) (ky * uz + s * ux))
           (Vector3d (kx * uz + s * uy) (ky * uz - s * ux) ((1 - c) * uz * uz + c)))"

text \<open>
  The rotation of a vector \<open>v\<close> about the direction \<open>u\<close> by \<open>angle\<close> radians, in vector form
  (Rodrigues): the textbook meaning of "rotated about", against which the matrix above
  is compared.
\<close>

definition rotated_about :: "Vector3d \<Rightarrow> real \<Rightarrow> Vector3d \<Rightarrow> Vector3d" where
  "rotated_about u angle v =
     vplus (vplus (vscale (cos angle) v) (vscale (sin angle) (cross u v)))
           (vscale ((1 - cos angle) * dot u v) u)"

subsection \<open>Grasp frames and poses\<close>

text \<open>
  Modelled from the spec: \<^verbatim>\<open>Reaching::GraspEigen\<close>, declared in \<^verbatim>\<open>reaching.h\<close>, which
  is not among the sources. It is the spec's GraspFrame, a center point and three vectors;
  these are the four fields that \<^verbatim>\<open>reaching.cpp\<close> reads and writes (\<^verbatim>\<open>center_\<close>,
  \<^verbatim>\<open>approach_\<close>, \<^verbatim>\<open>axis_\<close>, \<^verbatim>\<open>binormal_\<close>).
\<close>

record GraspEigen =
  center :: Vector3d
  approach :: Vector3d
  axis :: Vector3d
  binormal :: Vector3d

record Quaternion =
  qx :: real
  qy :: real
  qz :: real
  qw :: real

text \<open>
  \<^verbatim>\<open>geometry_msgs::Pose\<close> and \<^verbatim>\<open>geometry_msgs::PoseStamped\<close> (header stamp and frame
  id, then the pose).
\<close>

record Pose =
  position :: Vector3d
  orientation :: Quaternion

record PoseStamped =
  stamp :: nat
  frame_id :: string
  pose :: Pose

datatype PlanningLibrary = MOVE_IT | OPEN_RAVE

text \<open>
  Modelled from the spec: \<^verbatim>\<open>Reaching::Parameters\<close>, declared in the missing
  \<^verbatim>\<open>reaching.h\<close>: the configuration of the spec's section 6, with the fields that
  \<^verbatim>\<open>reaching.cpp\<close> reads, under the names it uses (without the trailing underscore,
  which an Isabelle name cannot end with), and with the values of the launch file as a
  guide to their types. \<^verbatim>\<open>workspace_\<close> is read at
  indices 0..5 and \<^verbatim>\<open>axis_order_\<close> at indices 0..2. The constructor of \<^verbatim>\<open>Reaching\<close>
  waits forever unless \<^verbatim>\<open>planning_lib_\<close> is one of the two libraries, so no other value
  reaches the functions below.
\<close>

record Parameters =
  workspace :: "real list"
  min_aperture :: real
  max_aperture :: real
  num_additional_grasps :: int
  axis_order :: "int list"
  planning_frame :: string
  hand_offset :: real
  arm_link :: string
  move_group :: string
  max_colliding_points :: int
  ik_first_joint_index :: int
  ik_last_joint_index :: int
  planning_lib :: PlanningLibrary

text \<open>
  The configuration loader fills \<^verbatim>\<open>workspace_\<close> with six bounds and \<^verbatim>\<open>axis_order_\<close> with
  three entries; the functions below read them at these indices only.
\<close>

datatype error = OutOfRange

subsection \<open>Geometry: rotateGrasp, reorderHandAxes, createGraspPose\<close>

definition rotateGrasp :: "GraspEigen \<Rightarrow> real \<Rightarrow> GraspEigen" where
  "rotateGrasp grasp_in theta =
     (let R = AngleAxis (theta * (pi / 180)) (binormal grasp_in);
          axis_out = mat_vec R (axis grasp_in);
          approach_out = mat_vec R (vscale (-1) (approach grasp_in))
      in \<lparr> center = center grasp_in,
           approach = approach_out,
           axis = axis_out,
           binormal = cross axis_out approach_out \<rparr>)"

text \<open>
  \<^verbatim>\<open>R.col(n) = v\<close>. Eigen checks the column index with an assertion; an index outside
  0..2 is a fault (abort, or an out-of-bounds write when assertions are compiled out).
\<close>

definition set_col :: "Matrix3d \<Rightarrow> int \<Rightarrow> Vector3d \<Rightarrow> error + Matrix3d" where
  "set_col M n v =
     (if n = 0 then Inr (Matrix3d v (col1 M) (col2 M))
      else if n = 1 then Inr (Matrix3d (col0 M) v (col2 M))
      else if n = 2 then Inr (Matrix3d (col0 M) (col1 M) v)
      else Inl OutOfRange)"

definition get_col :: "Matrix3d \<Rightarrow> int \<Rightarrow> Vector3d" where
  "get_col M n = (if n = 0 then col0 M else if n = 1 then col1 M else col2 M)"

definition reorderHandAxes :: "Parameters \<Rightarrow> Matrix3d \<Rightarrow> error + Matrix3d" where
  "reorderHandAxes P Q =
     (case set_col Zero3 (axis_order P ! 0) (col0 Q) of
        Inl e \<Rightarrow> Inl e
      | Inr R0 \<Rightarrow>
         (case set_col R0 (axis_order P ! 1) (col1 Q) of
            Inl e \<Rightarrow> Inl e
          | Inr R1 \<Rightarrow> set_col R1 (axis_order P ! 2) (col2 Q)))"

definition createGraspPose :: "Parameters \<Rightarrow> GraspEigen \<Rightarrow> Quaternion \<Rightarrow> real \<Rightarrow> PoseStamped" where
  "createGraspPose P grasp quat theta =
     (let position0 = center grasp;
          approach0 = vscale (-1) (approach grasp);
          position1 = vplus position0 (vscale (hand_offset P) approach0)
      in \<lparr> stamp = 0,
           frame_id = planning_frame P,
           pose = \<lparr> position = position1, orientation = quat \<rparr> \<rparr>)"

subsection \<open>Collision checker: isCollisionFree\<close>

text \<open>
  The test applied to one cloud point \<open>p\<close> (the condition of the \<^verbatim>\<open>if\<close> in the loop), with
  the cylinder constants of the function: \<open>c0\<close> is the pose position (upper cap), \<open>c1\<close> the
  lower cap, \<open>c\<close> the midpoint of the axis, \<open>(s, n)\<close> the supporting plane.
\<close>

definition inside_cylinder :: "Vector3d \<Rightarrow> Vector3d \<Rightarrow> Vector3d \<Rightarrow> bool" where
  "inside_cylinder c0 approach0 p =
     (let R = 0.06; L = 0.1; OFFSET = 0.005;
          r2 = R * R;
          c1 = vminus c0 (vscale L approach0);
          c = vplus c0 (vscale 0.5 (vminus c1 c0));
          n = vscale (-1) approach0;
          s = vminus c (vscale OFFSET approach0)
      in dot n (vminus p s) < 0 \<and> dot approach0 (vminus p c0) < 0
         \<and> dot approach0 (vminus p c1) > 0
         \<and> squaredNorm (vminus (vminus p c) (vscale (dot (vminus p c) approach0) approach0)) \<le> r2)"

text \<open>
  The scan of the cloud with its early exit; \<open>k\<close> is the counter of the loop. The cloud is
  the member \<^verbatim>\<open>cloud_\<close>, passed as an argument here.
\<close>

fun collision_scan :: "Parameters \<Rightarrow> Vector3d \<Rightarrow> Vector3d \<Rightarrow> Vector3d list \<Rightarrow> int \<Rightarrow> bool" where
  "collision_scan P c0 approach0 [] k = True"
| "collision_scan P c0 approach0 (p # ps) k =
     (if inside_cylinder c0 approach0 p
      then (let k' = k + 1
            in if k' > max_colliding_points P then False
               else collision_scan P c0 approach0 ps k')
      else collision_scan P c0 approach0 ps k)"

definition isCollisionFree :: "Parameters \<Rightarrow> Vector3d list \<Rightarrow> PoseStamped \<Rightarrow> Vector3d \<Rightarrow> bool" where
  "isCollisionFree P cloud pose_st approach0 =
     collision_scan P (position (pose pose_st)) approach0 cloud 0"

text \<open>The number of cloud points that satisfy the test: what the claims call the count.\<close>

definition colliding_points :: "Vector3d \<Rightarrow> Vector3d \<Rightarrow> Vector3d list \<Rightarrow> nat" where
  "colliding_points c0 approach0 cloud = length (filter (inside_cylinder c0 approach0) cloud)"

subsection \<open>IK client: solveIK\<close>

text \<open>
  The two service messages. \<^verbatim>\<open>moveit_msgs::GetPositionIK\<close>: the request fields the code
  sets, and of the response the status \<^verbatim>\<open>error_code.val\<close> and the joint vector
  \<^verbatim>\<open>solution.joint_state.position\<close>. \<^verbatim>\<open>grasp_selection::SolveIK\<close>: the request is the
  target pose, the response a success flag and the solution vector.
\<close>

record GetPositionIK_Request =
  group_name :: string
  attempts :: int
  timeout :: real
  pose_stamped :: PoseStamped
  ik_link_name :: string
  avoid_collisions :: bool

record GetPositionIK_Response =
  error_code_val :: int
  joint_state_position :: "real list"

record SolveIK_Response =
  srv_success :: bool
  srv_solution :: "real list"

text \<open>The status \<^verbatim>\<open>NO_IK_SOLUTION\<close> of \<^verbatim>\<open>moveit_msgs::MoveItErrorCodes\<close>.\<close>

definition NO_IK_SOLUTION :: int where
  "NO_IK_SOLUTION = -31"

record IKSolution =
  success :: bool
  joint_positions :: "real list"

text \<open>
  Modelled from the spec: the message \<^verbatim>\<open>agile_grasp::Grasp\<close>, the spec's GraspCandidate: a
  center, a surface center, the three vectors of its frame and the aperture width. Of
  these \<^verbatim>\<open>reaching.cpp\<close> reads the surface center and the width itself and hands the
  message to the constructor of \<^verbatim>\<open>GraspEigen\<close>.
\<close>

record Grasp =
  grasp_center :: Vector3d
  surface_center :: Vector3d
  grasp_approach :: Vector3d
  grasp_axis :: Vector3d
  grasp_binormal :: Vector3d
  width :: real

text \<open>
  What lies outside \<^verbatim>\<open>reaching.cpp\<close>, as parameters of the model. The state \<open>'s\<close> is the
  world the services live in: a call reads it and returns the next one, so a service may
  answer the same request differently at different times. \<open>now\<close> is \<^verbatim>\<open>ros::Time::now()\<close>;
  \<open>compute_ik\<close> and \<open>ikfast_solver\<close> are the two services behind \<^verbatim>\<open>ik_service_.call\<close>
  (the boolean that \<^verbatim>\<open>call\<close> returns is ignored by the code); \<open>default_attempts\<close> and
  \<open>default_timeout\<close> are the default arguments of \<^verbatim>\<open>solveIK\<close> declared in
  \<^verbatim>\<open>reaching.h\<close>; \<open>to_quaternion\<close> is tf's \<^verbatim>\<open>matrixEigenToTF\<close>, \<^verbatim>\<open>getRotation\<close>
  and \<^verbatim>\<open>normalize\<close> in one; \<open>GraspEigen_of\<close> is the constructor
  \<^verbatim>\<open>GraspEigen(const agile_grasp::Grasp&)\<close> of \<^verbatim>\<open>reaching.h\<close>.
\<close>

record 's Outside =
  now :: "'s \<Rightarrow> nat"
  compute_ik :: "'s \<Rightarrow> GetPositionIK_Request \<Rightarrow> GetPositionIK_Response \<times> 's"
  ikfast_solver :: "'s \<Rightarrow> Pose \<Rightarrow> SolveIK_Response \<times> 's"
  default_attempts :: int
  default_timeout :: real
  to_quaternion :: "Matrix3d \<Rightarrow> Quaternion"
  GraspEigen_of :: "Grasp \<Rightarrow> GraspEigen"

definition solveIKOpenRave :: "'s Outside \<Rightarrow> 's \<Rightarrow> PoseStamped \<Rightarrow> SolveIK_Response \<times> 's" where
  "solveIKOpenRave env w pose_st = ikfast_solver env w (pose pose_st)"

definition solveIKMoveIt ::
  "Parameters \<Rightarrow> 's Outside \<Rightarrow> 's \<Rightarrow> PoseStamped \<Rightarrow> int \<Rightarrow> real \<Rightarrow> GetPositionIK_Response \<times> 's"
where
  "solveIKMoveIt P env w pose_st n_attempts t_out =
     compute_ik env w
       \<lparr> group_name = move_group P,
         attempts = n_attempts,
         timeout = t_out,
         pose_stamped = pose_st\<lparr>stamp := now env w\<rparr>,
         ik_link_name = arm_link P,
         avoid_collisions = False \<rparr>"

text \<open>
  The iterator range \<^verbatim>\<open>[begin + first, begin + first + num_joints)\<close> must lie inside the
  vector; otherwise the construction of the result reads out of range (undefined in C++),
  which the model reports as \<open>OutOfRange\<close>.
\<close>

definition extractJointPositions :: "Parameters \<Rightarrow> GetPositionIK_Response \<Rightarrow> error + real list" where
  "extractJointPositions P ik_response =
     (let num_joints = ik_last_joint_index P - ik_first_joint_index P + 1;
          xs = joint_state_position ik_response
      in if 0 \<le> ik_first_joint_index P \<and> 0 \<le> num_joints
            \<and> ik_first_joint_index P + num_joints \<le> int (length xs)
         then Inr (take (nat num_joints) (drop (nat (ik_first_joint_index P)) xs))
         else Inl OutOfRange)"

definition solveIK ::
  "Parameters \<Rightarrow> 's Outside \<Rightarrow> 's \<Rightarrow> PoseStamped \<Rightarrow> int \<Rightarrow> real \<Rightarrow> error + (IKSolution \<times> 's)"
where
  "solveIK P env w pose_st n_attempts t_out =
     (case planning_lib P of
        MOVE_IT \<Rightarrow>
          (let (resp, w') = solveIKMoveIt P env w pose_st n_attempts t_out
           in if error_code_val resp = NO_IK_SOLUTION
              then Inr (\<lparr> success = False, joint_positions = [] \<rparr>, w')
              else (case extractJointPositions P resp of
                      Inl e \<Rightarrow> Inl e
                    | Inr js \<Rightarrow> Inr (\<lparr> success = True, joint_positions = js \<rparr>, w')))
      | OPEN_RAVE \<Rightarrow>
          (let (resp, w') = solveIKOpenRave env w pose_st
           in Inr (\<lparr> success = srv_success resp, joint_positions = srv_solution resp \<rparr>, w')))"

subsection \<open>Reachability filter: selectFeasibleGrasps\<close>

definition isInWorkspace :: "Parameters \<Rightarrow> real \<Rightarrow> real \<Rightarrow> real \<Rightarrow> bool" where
  "isInWorkspace P x y z =
     (if x \<ge> workspace P ! 0 \<and> x \<le> workspace P ! 1 \<and> y \<ge> workspace P ! 2
         \<and> y \<le> workspace P ! 3 \<and> z \<ge> workspace P ! 4 \<and> z \<le> workspace P ! 5
      then True else False)"

text \<open>
  \<^verbatim>\<open>Eigen::VectorXd::LinSpaced(size, low, high)\<close>: \<open>size\<close> equally spaced values from
  \<open>low\<close> to \<open>high\<close>; a single value is \<open>high\<close>.
\<close>

definition LinSpaced :: "nat \<Rightarrow> real \<Rightarrow> real \<Rightarrow> real list" where
  "LinSpaced size0 low high =
     (if size0 = 1 then [high]
      else map (\<lambda>i. low + real i * ((high - low) / real (size0 - 1))) [0..<size0])"

text \<open>The vector \<^verbatim>\<open>theta\<close> of sampled angles (in degrees) built for each candidate.\<close>

definition sample_angles :: "Parameters \<Rightarrow> real list" where
  "sample_angles P =
     (if num_additional_grasps P > 0
      then LinSpaced (nat (1 + num_additional_grasps P)) (-15) 15
      else [0])"

text \<open>
  The two rotation matrices of \<^verbatim>\<open>calculateHandOrientations\<close> before their columns are
  reordered: \<open>R\<close> for the first hand orientation and \<open>Q\<close> for the second, \<open>T\<close> being the
  rotation by \<^verbatim>\<open>M_PI\<close> about the approach vector.
\<close>

definition hand_frames :: "GraspEigen \<Rightarrow> Matrix3d \<times> Matrix3d" where
  "hand_frames grasp =
     (let r0 = vscale (-1) (approach grasp);
          r1 = axis grasp;
          R = Matrix3d r0 r1 (cross r0 r1);
          T = AngleAxis pi (approach grasp);
          q0 = mat_vec T (approach grasp);
          q1 = mat_vec T (axis grasp);
          Q = Matrix3d q0 q1 (cross q0 q1)
      in (R, Q))"

definition calculateHandOrientations ::
  "Parameters \<Rightarrow> 's Outside \<Rightarrow> GraspEigen \<Rightarrow> error + Quaternion list"
where
  "calculateHandOrientations P env grasp =
     (let (R, Q) = hand_frames grasp
      in case reorderHandAxes P R of
           Inl e \<Rightarrow> Inl e
         | Inr R1 \<Rightarrow>
            (case reorderHandAxes P Q of
               Inl e \<Rightarrow> Inl e
             | Inr R2 \<Rightarrow> Inr [to_quaternion env R1, to_quaternion env R2]))"

text \<open>
  A frame (the three columns of a matrix) rotated as a whole: every column mapped by the
  rotation \<open>T\<close>. This is what "the first frame rotated by 180 degrees about the approach
  vector" denotes.
\<close>

definition rotate_columns :: "Matrix3d \<Rightarrow> Matrix3d \<Rightarrow> Matrix3d" where
  "rotate_columns T M = Matrix3d (mat_vec T (col0 M)) (mat_vec T (col1 M)) (mat_vec T (col2 M))"

text \<open>
  Modelled from the spec: \<^verbatim>\<open>GraspScored\<close>, declared in a header that is not among the
  sources. The spec lists the originating candidate index, the pose, the approach vector,
  the aperture width, the joint solution and the score; the constructor is called with
  these six values, in this order.
\<close>

record GraspScored =
  gs_id :: nat
  gs_pose :: PoseStamped
  gs_approach :: Vector3d
  gs_width :: real
  gs_joint_positions :: "real list"
  gs_score :: real

text \<open>
  What a run does, in order, each entry tagged with the loop indices \<open>i\<close> (candidate),
  \<open>j\<close> (angle) and \<open>k\<close> (orientation) at which it happened: a call of \<^verbatim>\<open>solveIK\<close> with
  its pose and result, a call of \<^verbatim>\<open>isCollisionFree\<close> with its result, and a
  \<^verbatim>\<open>push_back\<close> onto \<^verbatim>\<open>grasps_selected\<close>. The trace is not in the code; it records the
  calls the code makes so that statements about them can be made.
\<close>

datatype Event =
    IK_Solved nat nat nat PoseStamped IKSolution
  | Collision_Checked nat nat nat bool
  | Grasp_Emitted nat nat nat GraspScored

record 's State =
  world :: 's
  grasps_selected :: "GraspScored list"
  trace :: "Event list"

definition push_back :: "nat \<Rightarrow> nat \<Rightarrow> nat \<Rightarrow> GraspScored \<Rightarrow> 's State \<Rightarrow> 's State" where
  "push_back i j k grasp_scored st =
     st\<lparr> grasps_selected := grasps_selected st @ [grasp_scored],
         trace := trace st @ [Grasp_Emitted i j k grasp_scored] \<rparr>"

text \<open>
  The body of the loop over \<open>k\<close>, for the quaternion \<open>quat = quats[k]\<close>; the flag
  \<^verbatim>\<open>is_collision_free\<close> goes in and comes out.
\<close>

definition try_orientation ::
  "Parameters \<Rightarrow> 's Outside \<Rightarrow> Vector3d list \<Rightarrow> nat \<Rightarrow> Grasp \<Rightarrow> nat \<Rightarrow> real \<Rightarrow> GraspEigen \<Rightarrow>
   nat \<Rightarrow> Quaternion \<Rightarrow> bool \<Rightarrow> 's State \<Rightarrow> error + (bool \<times> 's State)"
where
  "try_orientation P env cloud i grasp j theta grasp_eigen_rot k quat is_collision_free st =
     (let grasp_pose = createGraspPose P grasp_eigen_rot quat theta
      in case solveIK P env (world st) grasp_pose (default_attempts env) (default_timeout env) of
           Inl e \<Rightarrow> Inl e
         | Inr (ik_solution, w') \<Rightarrow>
            (let st1 = st\<lparr> world := w',
                           trace := trace st @ [IK_Solved i j k grasp_pose ik_solution] \<rparr>;
                 grasp_scored =
                   \<lparr> gs_id = i, gs_pose = grasp_pose, gs_approach = approach grasp_eigen_rot,
                     gs_width = width grasp, gs_joint_positions = joint_positions ik_solution,
                     gs_score = 0 \<rparr>
             in if \<not> success ik_solution then Inr (is_collision_free, st1)
                else if \<not> is_collision_free
                then (let free = isCollisionFree P cloud grasp_pose (approach grasp_eigen_rot);
                          st2 = st1\<lparr> trace := trace st1 @ [Collision_Checked i j k free] \<rparr>
                      in if \<not> free then Inr (free, st2)
                         else Inr (free, push_back i j k grasp_scored st2))
                else Inr (is_collision_free, push_back i j k grasp_scored st1)))"

fun orientations_loop ::
  "Parameters \<Rightarrow> 's Outside \<Rightarrow> Vector3d list \<Rightarrow> nat \<Rightarrow> Grasp \<Rightarrow> nat \<Rightarrow> real \<Rightarrow> GraspEigen \<Rightarrow>
   nat \<Rightarrow> Quaternion list \<Rightarrow> bool \<Rightarrow> 's State \<Rightarrow> error + 's State"
where
  "orientations_loop P env cloud i grasp j theta rot k [] is_collision_free st = Inr st"
| "orientations_loop P env cloud i grasp j theta rot k (quat # quats) is_collision_free st =
     (case try_orientation P env cloud i grasp j theta rot k quat is_collision_free st of
        Inl e \<Rightarrow> Inl e
      | Inr (free, st') \<Rightarrow> orientations_loop P env cloud i grasp j theta rot (Suc k) quats free st')"

text \<open>The body of the loop over \<open>j\<close>: one rotated frame, its two orientations.\<close>

definition check_frame ::
  "Parameters \<Rightarrow> 's Outside \<Rightarrow> Vector3d list \<Rightarrow> nat \<Rightarrow> Grasp \<Rightarrow> GraspEigen \<Rightarrow> nat \<Rightarrow> real \<Rightarrow>
   's State \<Rightarrow> error + 's State"
where
  "check_frame P env cloud i grasp grasp_eigen j theta st =
     (let grasp_eigen_rot = rotateGrasp grasp_eigen theta
      in case calculateHandOrientations P env grasp_eigen_rot of
           Inl e \<Rightarrow> Inl e
         | Inr quats \<Rightarrow>
             orientations_loop P env cloud i grasp j theta grasp_eigen_rot 0 quats False st)"

fun angles_loop ::
  "Parameters \<Rightarrow> 's Outside \<Rightarrow> Vector3d list \<Rightarrow> nat \<Rightarrow> Grasp \<Rightarrow> GraspEigen \<Rightarrow> nat \<Rightarrow> real list \<Rightarrow>
   's State \<Rightarrow> error + 's State"
where
  "angles_loop P env cloud i grasp grasp_eigen j [] st = Inr st"
| "angles_loop P env cloud i grasp grasp_eigen j (theta # thetas) st =
     (case check_frame P env cloud i grasp grasp_eigen j theta st of
        Inl e \<Rightarrow> Inl e
      | Inr st' \<Rightarrow> angles_loop P env cloud i grasp grasp_eigen (Suc j) thetas st')"

text \<open>The body of the loop over \<open>i\<close>: the two tests, then the sampled angles.\<close>

definition check_grasp ::
  "Parameters \<Rightarrow> 's Outside \<Rightarrow> Vector3d list \<Rightarrow> nat \<Rightarrow> Grasp \<Rightarrow> 's State \<Rightarrow> error + 's State"
where
  "check_grasp P env cloud i grasp st =
     (if \<not> isInWorkspace P (vx (surface_center grasp)) (vy (surface_center grasp))
             (vz (surface_center grasp))
      then Inr st
      else if width grasp < min_aperture P \<or> width grasp > max_aperture P
      then Inr st
      else angles_loop P env cloud i grasp (GraspEigen_of env grasp) 0 (sample_angles P) st)"

fun grasps_loop ::
  "Parameters \<Rightarrow> 's Outside \<Rightarrow> Vector3d list \<Rightarrow> nat \<Rightarrow> Grasp list \<Rightarrow> 's State \<Rightarrow> error + 's State"
where
  "grasps_loop P env cloud i [] st = Inr st"
| "grasps_loop P env cloud i (grasp # grasps) st =
     (case check_grasp P env cloud i grasp st of
        Inl e \<Rightarrow> Inl e
      | Inr st' \<Rightarrow> grasps_loop P env cloud (Suc i) grasps st')"

text \<open>
  The whole call, started in world \<open>w\<close>. The code returns \<^verbatim>\<open>grasps_selected\<close>; the model
  returns it together with the final world and the trace.
\<close>

definition selectFeasibleGrasps ::
  "Parameters \<Rightarrow> 's Outside \<Rightarrow> Vector3d list \<Rightarrow> 's \<Rightarrow> Grasp list \<Rightarrow> error + 's State"
where
  "selectFeasibleGrasps P env cloud w grasps_in =
     grasps_loop P env cloud 0 grasps_in \<lparr> world = w, grasps_selected = [], trace = [] \<rparr>"

subsection \<open>Reading a trace\<close>

fun ev_tag :: "Event \<Rightarrow> nat \<times> nat \<times> nat" where
  "ev_tag (IK_Solved i j k p s) = (i, j, k)"
| "ev_tag (Collision_Checked i j k b) = (i, j, k)"
| "ev_tag (Grasp_Emitted i j k g) = (i, j, k)"

fun is_ik :: "Event \<Rightarrow> bool" where
  "is_ik (IK_Solved i j k p s) = True"
| "is_ik e = False"

fun is_check :: "Event \<Rightarrow> bool" where
  "is_check (Collision_Checked i j k b) = True"
| "is_check e = False"


fun emitted :: "Event list \<Rightarrow> GraspScored list" where
  "emitted [] = []"
| "emitted (Grasp_Emitted i j k g # es) = g # emitted es"
| "emitted (e # es) = emitted es"


text \<open>The candidates that pass the two tests at the head of the loop.\<close>

definition passes_tests :: "Parameters \<Rightarrow> Grasp \<Rightarrow> bool" where
  "passes_tests P grasp =
     (isInWorkspace P (vx (surface_center grasp)) (vy (surface_center grasp))
        (vz (surface_center grasp))
      \<and> \<not> (width grasp < min_aperture P \<or> width grasp > max_aperture P))"

text \<open>
  The events of one pass through the body of the loop over \<open>k\<close>, given what \<^verbatim>\<open>solveIK\<close>
  answered (\<open>ik\<close>), the flag on entry and what the collision checker says about the pose
  (\<open>free\<close>): the IK call; after a successful IK the collision check, unless the flag is
  already set; and the emitted entry, if the flag was set or the check found no collision.
\<close>

definition orientation_events ::
  "nat \<Rightarrow> nat \<Rightarrow> nat \<Rightarrow> PoseStamped \<Rightarrow> IKSolution \<Rightarrow> bool \<Rightarrow> bool \<Rightarrow> GraspScored \<Rightarrow> Event list"
where
  "orientation_events i j k grasp_pose ik flag free grasp_scored =
     IK_Solved i j k grasp_pose ik #
     (if success ik
      then (if flag then [] else [Collision_Checked i j k free]) @
           (if flag \<or> free then [Grasp_Emitted i j k grasp_scored] else [])
      else [])"

definition make_entry :: "nat \<Rightarrow> Grasp \<Rightarrow> GraspEigen \<Rightarrow> PoseStamped \<Rightarrow> IKSolution \<Rightarrow> GraspScored" where
  "make_entry i grasp grasp_eigen_rot grasp_pose ik =
     \<lparr> gs_id = i, gs_pose = grasp_pose, gs_approach = approach grasp_eigen_rot,
       gs_width = width grasp, gs_joint_positions = joint_positions ik, gs_score = 0 \<rparr>"

subsection \<open>The shape of a trace\<close>

text \<open>
  The traces the three nested loops can leave behind. \<open>frame_trace\<close>: the events of the
  loop over \<open>k\<close>, one block of \<open>orientation_events\<close> per quaternion, the flag handed from
  one block to the next, and what each \<^verbatim>\<open>solveIK\<close> call answered existentially open.
  \<open>angles_trace\<close>: one \<open>frame_trace\<close> per sampled angle, each started with the flag
  false. \<open>grasps_trace\<close>: nothing for a candidate that fails the tests, an \<open>angles_trace\<close>
  for one that passes.
\<close>

inductive frame_trace ::
  "Parameters \<Rightarrow> Vector3d list \<Rightarrow> nat \<Rightarrow> Grasp \<Rightarrow> nat \<Rightarrow> real \<Rightarrow> GraspEigen \<Rightarrow>
   nat \<Rightarrow> Quaternion list \<Rightarrow> bool \<Rightarrow> Event list \<Rightarrow> bool"
  for P :: Parameters and cloud :: "Vector3d list" and i :: nat and grasp :: Grasp
    and j :: nat and theta :: real and rot :: GraspEigen
where
  frame_done: "frame_trace P cloud i grasp j theta rot k [] flag []"
| frame_step:
    "frame_trace P cloud i grasp j theta rot (Suc k) quats
        (if success ik \<and> \<not> flag
         then isCollisionFree P cloud (createGraspPose P rot quat theta) (approach rot)
         else flag) rest
     \<Longrightarrow> frame_trace P cloud i grasp j theta rot k (quat # quats) flag
           (orientation_events i j k (createGraspPose P rot quat theta) ik flag
              (isCollisionFree P cloud (createGraspPose P rot quat theta) (approach rot))
              (make_entry i grasp rot (createGraspPose P rot quat theta) ik) @ rest)"

inductive angles_trace ::
  "Parameters \<Rightarrow> 's Outside \<Rightarrow> Vector3d list \<Rightarrow> nat \<Rightarrow> Grasp \<Rightarrow> GraspEigen \<Rightarrow>
   nat \<Rightarrow> real list \<Rightarrow> Event list \<Rightarrow> bool"
  for P :: Parameters and env :: "'s Outside" and cloud :: "Vector3d list" and i :: nat
    and grasp :: Grasp and grasp_eigen :: GraspEigen
where
  angles_done: "angles_trace P env cloud i grasp grasp_eigen j [] []"
| angles_step:
    "calculateHandOrientations P env (rotateGrasp grasp_eigen theta) = Inr quats
     \<Longrightarrow> frame_trace P cloud i grasp j theta (rotateGrasp grasp_eigen theta) 0 quats False a
     \<Longrightarrow> angles_trace P env cloud i grasp grasp_eigen (Suc j) thetas b
     \<Longrightarrow> angles_trace P env cloud i grasp grasp_eigen j (theta # thetas) (a @ b)"

inductive grasps_trace ::
  "Parameters \<Rightarrow> 's Outside \<Rightarrow> Vector3d list \<Rightarrow> nat \<Rightarrow> Grasp list \<Rightarrow> Event list \<Rightarrow> bool"
  for P :: Parameters and env :: "'s Outside" and cloud :: "Vector3d list"
where
  grasps_done: "grasps_trace P env cloud i [] []"
| grasps_skip:
    "\<not> passes_tests P grasp
     \<Longrightarrow> grasps_trace P env cloud (Suc i) grasps b
     \<Longrightarrow> grasps_trace P env cloud i (grasp # grasps) b"
| grasps_step:
    "passes_tests P grasp
     \<Longrightarrow> angles_trace P env cloud i grasp (GraspEigen_of env grasp) 0 (sample_angles P) a
     \<Longrightarrow> grasps_trace P env cloud (Suc i) grasps b
     \<Longrightarrow> grasps_trace P env cloud i (grasp # grasps) (a @ b)"


subsection \<open>The shipped configuration\<close>

text \<open>The parameter values of \<^verbatim>\<open>launch/select_grasps.launch\<close>, used for concrete runs.\<close>

definition launch_params :: Parameters where
  "launch_params =
     \<lparr> workspace = [0.6, 1.0, -0.26, 0.14, -0.23, 1],
       min_aperture = 0.02,
       max_aperture = 0.07,
       num_additional_grasps = 0,
       axis_order = [2, 0, 1],
       planning_frame = ''/base'',
       hand_offset = 0.095,
       arm_link = ''right_gripper'',
       move_group = ''right_arm'',
       max_colliding_points = 1,
       ik_first_joint_index = 8,
       ik_last_joint_index = 14,
       planning_lib = MOVE_IT \<rparr>"

definition unit_frame :: GraspEigen where
  "unit_frame =
     \<lparr> center = Vector3d 1 2 3, approach = Vector3d 1 0 0, axis = Vector3d 0 1 0,
       binormal = Vector3d 0 0 1 \<rparr>"

definition origin_pose :: PoseStamped where
  "origin_pose =
     \<lparr> stamp = 0, frame_id = ''/base'',
       pose = \<lparr> position = Vector3d 0 0 0,
                orientation = \<lparr>qx = 0, qy = 0, qz = 0, qw = 1\<rparr> \<rparr> \<rparr>"

definition Identity3 :: Matrix3d where
  "Identity3 = Matrix3d (Vector3d 1 0 0) (Vector3d 0 1 0) (Vector3d 0 0 1)"

text \<open>
  Two stand-ins for the services, over a world that only counts the calls made so far.
  \<open>robot_answers\<close>: the joint-space service reports success (status 1) with a 17-joint
  vector whose entries are their own indices; the closed-form service reports success with
  seven joints. \<open>empty_answers\<close>: the closed-form service reports success with an empty
  solution vector, and the joint-space service reports no solution.
\<close>

definition robot_answers :: "nat Outside" where
  "robot_answers =
     \<lparr> now = (\<lambda>w. w),
       compute_ik = (\<lambda>w req.
          (\<lparr> error_code_val = 1,
             joint_state_position = [0, 1, 2, 3, 4, 5, 6, 7, 8, 9, 10, 11, 12, 13, 14, 15, 16] \<rparr>,
           Suc w)),
       ikfast_solver = (\<lambda>w p.
          (\<lparr> srv_success = True, srv_solution = [1, 2, 3, 4, 5, 6, 7] \<rparr>, Suc w)),
       default_attempts = 1,
       default_timeout = 1,
       to_quaternion = (\<lambda>M. \<lparr>qx = vx (col0 M), qy = vy (col0 M), qz = vz (col0 M), qw = 0\<rparr>),
       GraspEigen_of = (\<lambda>g.
          \<lparr> center = grasp_center g, approach = grasp_approach g, axis = grasp_axis g,
            binormal = grasp_binormal g \<rparr>) \<rparr>"

definition empty_answers :: "nat Outside" where
  "empty_answers =
     robot_answers
       \<lparr> compute_ik := (\<lambda>w req.
            (\<lparr> error_code_val = NO_IK_SOLUTION, joint_state_position = [] \<rparr>, Suc w)),
         ikfast_solver := (\<lambda>w p. (\<lparr> srv_success = True, srv_solution = [] \<rparr>, Suc w)) \<rparr>"

text \<open>
  A candidate inside the shipped workspace and aperture range, its frame after the
  rotation by 0 degrees, the two poses and entries the run builds for it under
  \<open>robot_answers\<close>, and a cloud with two points inside the collision cylinder of that
  frame.
\<close>

definition example_grasp :: Grasp where
  "example_grasp =
     \<lparr> grasp_center = Vector3d 0.8 0 0, surface_center = Vector3d 0.8 0 0,
       grasp_approach = Vector3d 1 0 0, grasp_axis = Vector3d 0 1 0,
       grasp_binormal = Vector3d 0 0 1, width = 0.05 \<rparr>"

definition example_rot :: GraspEigen where
  "example_rot =
     \<lparr> center = Vector3d 0.8 0 0, approach = Vector3d (-1) 0 0, axis = Vector3d 0 1 0,
       binormal = Vector3d 0 0 1 \<rparr>"

definition quat_A :: Quaternion where
  "quat_A = \<lparr>qx = 0, qy = 1, qz = 0, qw = 0\<rparr>"

definition quat_B :: Quaternion where
  "quat_B = \<lparr>qx = 0, qy = -1, qz = 0, qw = 0\<rparr>"

definition pose_A :: PoseStamped where
  "pose_A =
     \<lparr> stamp = 0, frame_id = ''/base'',
       pose = \<lparr> position = Vector3d 0.895 0 0, orientation = quat_A \<rparr> \<rparr>"

definition pose_B :: PoseStamped where
  "pose_B =
     \<lparr> stamp = 0, frame_id = ''/base'',
       pose = \<lparr> position = Vector3d 0.895 0 0, orientation = quat_B \<rparr> \<rparr>"

definition ik_found :: IKSolution where
  "ik_found = \<lparr> success = True, joint_positions = [8, 9, 10, 11, 12, 13, 14] \<rparr>"

definition entry_A :: GraspScored where
  "entry_A =
     \<lparr> gs_id = 0, gs_pose = pose_A, gs_approach = Vector3d (-1) 0 0, gs_width = 0.05,
       gs_joint_positions = [8, 9, 10, 11, 12, 13, 14], gs_score = 0 \<rparr>"

definition entry_B :: GraspScored where
  "entry_B =
     \<lparr> gs_id = 0, gs_pose = pose_B, gs_approach = Vector3d (-1) 0 0, gs_width = 0.05,
       gs_joint_positions = [8, 9, 10, 11, 12, 13, 14], gs_score = 0 \<rparr>"

definition blocking_cloud :: "Vector3d list" where
  "blocking_cloud = [Vector3d 0.9 0 0, Vector3d 0.92 0.01 0]"

definition start_state :: "nat State" where
  "start_state = \<lparr> world = 0, grasps_selected = [], trace = [] \<rparr>"

text \<open>
  The states the run on \<open>example_grasp\<close> ends in: with an empty cloud and with
  \<open>blocking_cloud\<close>. A candidate too wide for the hand, and one exactly on the lower
  \<open>x\<close> bound of the workspace with exactly the minimum aperture.
\<close>

definition free_state :: "nat State" where
  "free_state =
     \<lparr> world = 2, grasps_selected = [entry_A, entry_B],
       trace = [IK_Solved 0 0 0 pose_A ik_found, Collision_Checked 0 0 0 True,
                Grasp_Emitted 0 0 0 entry_A, IK_Solved 0 0 1 pose_B ik_found,
                Grasp_Emitted 0 0 1 entry_B] \<rparr>"

definition blocked_state :: "nat State" where
  "blocked_state =
     \<lparr> world = 2, grasps_selected = [],
       trace = [IK_Solved 0 0 0 pose_A ik_found, Collision_Checked 0 0 0 False,
                IK_Solved 0 0 1 pose_B ik_found, Collision_Checked 0 0 1 False] \<rparr>"

text \<open>The shipped configuration with three additional grasps: four sampled angles.\<close>

definition sampling_params :: Parameters where
  "sampling_params = launch_params\<lparr>num_additional_grasps := 3\<rparr>"



section \<open>Properties\<close>

subsection \<open>Vector algebra\<close>

lemma mat_vec_AngleAxis: "mat_vec (AngleAxis angle u) v = rotated_about u angle v"
  by (cases u; cases v) (simp add: mat_vec_def AngleAxis_def rotated_about_def Let_def algebra_simps)

subsection \<open>rotateGrasp\<close>

text \<open>
  Claim C6. \<^verbatim>\<open>rotateGrasp(frame, theta)\<close> returns a frame whose axis is the input axis
  rotated about the input binormal by \<open>theta\<close> degrees (converted to radians), whose approach
  is the negated input approach under the same rotation, whose binormal is recomputed as
  axis cross approach, and whose center is the input center. The function is total: it has
  no error result and is defined for every frame and angle.
\<close>

theorem rotateGrasp_spec:
  "axis (rotateGrasp g theta) = rotated_about (binormal g) (theta * (pi / 180)) (axis g) \<and>
   approach (rotateGrasp g theta) =
     rotated_about (binormal g) (theta * (pi / 180)) (vscale (-1) (approach g)) \<and>
   binormal (rotateGrasp g theta) =
     cross (axis (rotateGrasp g theta)) (approach (rotateGrasp g theta)) \<and>
   center (rotateGrasp g theta) = center g"
  by (simp add: rotateGrasp_def Let_def mat_vec_AngleAxis)

text \<open>A quarter turn of the unit frame about its binormal (the z axis).\<close>

theorem rotateGrasp_spec_witness:
  "axis (rotateGrasp unit_frame 90) = Vector3d (-1) 0 0 \<and>
   approach (rotateGrasp unit_frame 90) = Vector3d 0 (-1) 0 \<and>
   binormal (rotateGrasp unit_frame 90) = Vector3d 0 0 1 \<and>
   center (rotateGrasp unit_frame 90) = Vector3d 1 2 3"
  using rotateGrasp_spec [of unit_frame 90]
  by (simp add: unit_frame_def rotated_about_def)

subsection \<open>createGraspPose\<close>

text \<open>
  Claim C7. \<^verbatim>\<open>createGraspPose(frame, orientation, ...)\<close> returns a stamped pose whose
  position is the frame's center moved against the approach direction by the configured
  hand offset (center - offset * approach), whose orientation is the given quaternion and
  whose frame identifier is the configured planning frame.
\<close>

theorem createGraspPose_spec:
  "position (pose (createGraspPose P g q theta)) =
     vminus (center g) (vscale (hand_offset P) (approach g)) \<and>
   orientation (pose (createGraspPose P g q theta)) = q \<and>
   frame_id (createGraspPose P g q theta) = planning_frame P"
  by (cases "center g"; cases "approach g") (simp add: createGraspPose_def Let_def)

theorem createGraspPose_spec_witness:
  "position (pose (createGraspPose launch_params unit_frame \<lparr>qx = 0, qy = 0, qz = 0, qw = 1\<rparr> 0))
     = Vector3d 0.905 2 3 \<and>
   orientation (pose (createGraspPose launch_params unit_frame \<lparr>qx = 0, qy = 0, qz = 0, qw = 1\<rparr> 0))
     = \<lparr>qx = 0, qy = 0, qz = 0, qw = 1\<rparr> \<and>
   frame_id (createGraspPose launch_params unit_frame \<lparr>qx = 0, qy = 0, qz = 0, qw = 1\<rparr> 0)
     = ''/base''"
  using createGraspPose_spec [of launch_params unit_frame "\<lparr>qx = 0, qy = 0, qz = 0, qw = 1\<rparr>" 0]
  by (simp add: launch_params_def unit_frame_def)

subsection \<open>reorderHandAxes\<close>

lemma set_col_get_col:
  "set_col M n v = Inr R \<Longrightarrow> c \<in> {0, 1, 2} \<Longrightarrow> get_col R c = (if c = n then v else get_col M c)"
  by (auto simp: set_col_def get_col_def split: if_splits)

lemma set_col_ok: "n \<in> {0, 1, 2} \<Longrightarrow> \<exists>R. set_col M n v = Inr R"
  by (auto simp: set_col_def)

lemma reorderHandAxes_cols:
  assumes ao: "axis_order P = [a0, a1, a2]"
    and rng: "a0 \<in> {0, 1, 2}" "a1 \<in> {0, 1, 2}" "a2 \<in> {0, 1, 2}"
  shows "\<exists>R. reorderHandAxes P Q = Inr R \<and>
           (\<forall>c\<in>{0, 1, 2}. get_col R c =
              (if c = a2 then col2 Q else if c = a1 then col1 Q
               else if c = a0 then col0 Q else vzero))"
proof -
  obtain R0 where r0: "set_col Zero3 a0 (col0 Q) = Inr R0"
    using set_col_ok [OF rng(1)] by blast
  obtain R1 where r1: "set_col R0 a1 (col1 Q) = Inr R1"
    using set_col_ok [OF rng(2)] by blast
  obtain R2 where r2: "set_col R1 a2 (col2 Q) = Inr R2"
    using set_col_ok [OF rng(3)] by blast
  have z: "get_col Zero3 c = vzero" for c
    by (simp add: get_col_def Zero3_def)
  have "reorderHandAxes P Q = Inr R2"
    by (simp add: reorderHandAxes_def ao r0 r1 r2)
  moreover have "get_col R2 c =
      (if c = a2 then col2 Q else if c = a1 then col1 Q
       else if c = a0 then col0 Q else vzero)" if "c \<in> {0, 1, 2}" for c
    using set_col_get_col [OF r2 that] set_col_get_col [OF r1 that]
      set_col_get_col [OF r0 that] z by simp
  ultimately show ?thesis by blast
qed

text \<open>
  Claim C10. \<^verbatim>\<open>reorderHandAxes\<close> starts from the zero matrix and writes input column
  \<open>i\<close> to output column \<open>axis_order[i]\<close> for \<open>i = 0, 1, 2\<close>, later writes winning. When
  \<open>axis_order\<close> is a permutation of 0, 1, 2 the output columns are the input columns
  permuted. Nothing is validated: with a repeated index the function still returns a
  matrix (no error), one of whose columns is all zero and one of whose columns was
  overwritten by the later write.
\<close>

theorem reorderHandAxes_spec:
  assumes ao: "axis_order P = [a0, a1, a2]"
    and rng: "a0 \<in> {0, 1, 2}" "a1 \<in> {0, 1, 2}" "a2 \<in> {0, 1, 2}"
  shows "\<exists>R. reorderHandAxes P Q = Inr R \<and>
           (\<forall>c\<in>{0, 1, 2}. get_col R c =
              (if c = a2 then col2 Q else if c = a1 then col1 Q
               else if c = a0 then col0 Q else vzero)) \<and>
           (distinct [a0, a1, a2] \<longrightarrow>
              get_col R a0 = col0 Q \<and> get_col R a1 = col1 Q \<and> get_col R a2 = col2 Q) \<and>
           (\<not> distinct [a0, a1, a2] \<longrightarrow>
              (\<exists>c\<in>{0, 1, 2}. get_col R c = vzero) \<and>
              (a0 = a1 \<longrightarrow> get_col R a0 = (if a2 = a0 then col2 Q else col1 Q)) \<and>
              (a0 = a2 \<or> a1 = a2 \<longrightarrow> get_col R a2 = col2 Q))"
proof -
  obtain R where R: "reorderHandAxes P Q = Inr R"
    and cols: "\<And>c. c \<in> {0, 1, 2} \<Longrightarrow> get_col R c =
              (if c = a2 then col2 Q else if c = a1 then col1 Q
               else if c = a0 then col0 Q else vzero)"
    using reorderHandAxes_cols [OF ao rng] by blast
  have perm: "get_col R a0 = col0 Q \<and> get_col R a1 = col1 Q \<and> get_col R a2 = col2 Q"
    if "distinct [a0, a1, a2]"
    using that cols [OF rng(1)] cols [OF rng(2)] cols [OF rng(3)] by auto
  have rep: "\<exists>c\<in>{0, 1, 2}. get_col R c = vzero" if "\<not> distinct [a0, a1, a2]"
  proof -
    have "\<exists>c\<in>{0, 1, 2::int}. c \<noteq> a0 \<and> c \<noteq> a1 \<and> c \<noteq> a2"
      using that rng by simp presburger
    then obtain c where c: "c \<in> {0, 1, 2}" "c \<noteq> a0" "c \<noteq> a1" "c \<noteq> a2" by blast
    from cols [OF c(1)] c have "get_col R c = vzero" by simp
    with c(1) show ?thesis by blast
  qed
  have over1: "get_col R a0 = (if a2 = a0 then col2 Q else col1 Q)" if "a0 = a1"
    using that cols [OF rng(1)] by simp
  have over2: "get_col R a2 = col2 Q"
    using cols [OF rng(3)] by simp
  show ?thesis
  proof (intro exI conjI ballI impI)
    show "reorderHandAxes P Q = Inr R" by (rule R)
  next
    fix c :: int assume "c \<in> {0, 1, 2}"
    then show "get_col R c =
              (if c = a2 then col2 Q else if c = a1 then col1 Q
               else if c = a0 then col0 Q else vzero)" by (rule cols)
  qed (use perm rep over1 over2 in \<open>simp_all\<close>)
qed

text \<open>
  The shipped order \<open>[2, 0, 1]\<close> permutes the columns of the identity; the repeated order
  \<open>[0, 0, 1]\<close> loses the first input column and leaves the last output column zero.
\<close>

theorem reorderHandAxes_spec_witness:
  "reorderHandAxes launch_params Identity3
     = Inr (Matrix3d (Vector3d 0 1 0) (Vector3d 0 0 1) (Vector3d 1 0 0)) \<and>
   reorderHandAxes (launch_params\<lparr>axis_order := [0, 0, 1]\<rparr>) Identity3
     = Inr (Matrix3d (Vector3d 0 1 0) (Vector3d 0 0 1) (Vector3d 0 0 0))"
  using reorderHandAxes_spec [of launch_params 2 0 1 Identity3]
    reorderHandAxes_spec [of "launch_params\<lparr>axis_order := [0, 0, 1]\<rparr>" 0 0 1 Identity3]
  by (simp add: launch_params_def Identity3_def reorderHandAxes_def set_col_def Zero3_def
      vzero_def)

subsection \<open>calculateHandOrientations\<close>

text \<open>
  Claim C9 says that the second hand orientation is built from the first frame rotated by
  180 degrees about the approach vector, the "opposite" hand orientation of the comment
  in the code. For the unit frame (approach \<open>x\<close>, axis \<open>y\<close>) the first matrix has the
  columns \<open>-x, y, -z\<close>, and rotated about \<open>x\<close> by 180 degrees it has the columns
  \<open>-x, -y, z\<close>. The code computes the columns \<open>x, -y, -z\<close> instead: the first column of
  its second matrix is the approach vector itself, not its negation as in the first
  matrix.
\<close>

theorem hand_frames_unit_frame:
  "fst (hand_frames unit_frame)
     = Matrix3d (Vector3d (- 1) 0 0) (Vector3d 0 1 0) (Vector3d 0 0 (- 1)) \<and>
   rotate_columns (AngleAxis pi (approach unit_frame)) (fst (hand_frames unit_frame))
     = Matrix3d (Vector3d (- 1) 0 0) (Vector3d 0 (- 1) 0) (Vector3d 0 0 1) \<and>
   snd (hand_frames unit_frame)
     = Matrix3d (Vector3d 1 0 0) (Vector3d 0 (- 1) 0) (Vector3d 0 0 (- 1))"
  by (simp add: hand_frames_def rotate_columns_def unit_frame_def mat_vec_def AngleAxis_def
      Let_def)

subsection \<open>isCollisionFree\<close>

text \<open>
  For a unit approach vector the test of the loop is the geometric one: the point lies
  strictly between the plane 0.055 behind the upper cap and the upper cap itself (the
  supporting plane sits 0.005 beyond the midpoint of the 0.1 long axis, towards the lower
  cap, and the lower cap lies behind it), and its squared distance from the axis is at most
  the squared radius.
\<close>

lemma inside_cylinder_unit:
  assumes unit: "dot a a = 1"
  shows "inside_cylinder c0 a p \<longleftrightarrow>
           - 0.055 < dot a (vminus p c0) \<and> dot a (vminus p c0) < 0 \<and>
           squaredNorm (vminus p (vminus c0 (vscale 0.05 a)))
             - (dot a (vminus p (vminus c0 (vscale 0.05 a))))\<^sup>2 \<le> 0.06\<^sup>2"
proof -
  obtain a1 a2 a3 where a: "a = Vector3d a1 a2 a3" by (cases a)
  obtain x y z where c0: "c0 = Vector3d x y z" by (cases c0)
  obtain p1 p2 p3 where p: "p = Vector3d p1 p2 p3" by (cases p)
  have u: "a1 * a1 + a2 * a2 + a3 * a3 = 1"
    using unit by (simp add: a)
  define t where "t = a1 * (p1 - x) + a2 * (p2 - y) + a3 * (p3 - z)"
  define e1 where "e1 = p1 - (x - 0.05 * a1)"
  define e2 where "e2 = p2 - (y - 0.05 * a2)"
  define e3 where "e3 = p3 - (z - 0.05 * a3)"
  define m where "m = e1 * a1 + e2 * a2 + e3 * a3"
  have t: "dot a (vminus p c0) = t"
    by (simp add: a c0 p t_def)
  have plane: "dot (vscale (-1) a)
      (vminus p (vminus (vminus c0 (vscale 0.05 a)) (vscale 0.005 a)))
      = - t - 0.055 * (a1 * a1 + a2 * a2 + a3 * a3)"
    by (simp add: a c0 p t_def algebra_simps)
  have lower: "dot a (vminus p (vminus c0 (vscale 0.1 a)))
      = t + 0.1 * (a1 * a1 + a2 * a2 + a3 * a3)"
    by (simp add: a c0 p t_def algebra_simps)
  have mid: "vplus c0 (vscale 0.5 (vminus (vminus c0 (vscale 0.1 a)) c0))
      = vminus c0 (vscale 0.05 a)"
    by (simp add: a c0)
  have e: "vminus p (vminus c0 (vscale 0.05 a)) = Vector3d e1 e2 e3"
    by (simp add: a c0 p e1_def e2_def e3_def)
  have m: "dot a (Vector3d e1 e2 e3) = m" "dot (Vector3d e1 e2 e3) a = m"
    by (simp_all add: a m_def mult.commute)
  have "squaredNorm (vminus (Vector3d e1 e2 e3) (vscale m a))
      = (e1 * e1 + e2 * e2 + e3 * e3) - 2 * m * m + m * m * (a1 * a1 + a2 * a2 + a3 * a3)"
    by (simp add: a squaredNorm_def m_def algebra_simps)
  then have perp: "squaredNorm (vminus (Vector3d e1 e2 e3) (vscale m a))
      = squaredNorm (Vector3d e1 e2 e3) - m\<^sup>2"
    by (simp add: u squaredNorm_def power2_eq_square)
  show ?thesis
    unfolding inside_cylinder_def Let_def mid plane lower e m perp t u
    by (auto simp: power2_eq_square)
qed

text \<open>The scan with counter \<open>k\<close> fails exactly when some matching point pushes it past the maximum.\<close>

lemma collision_scan_count:
  "0 \<le> k \<Longrightarrow> collision_scan P c0 a ps k =
     (length (filter (inside_cylinder c0 a) ps) = 0 \<or>
      k + int (length (filter (inside_cylinder c0 a) ps)) \<le> max_colliding_points P)"
proof (induction ps arbitrary: k)
  case Nil
  then show ?case by simp
next
  case (Cons p ps)
  show ?case
  proof (cases "inside_cylinder c0 a p")
    case True
    show ?thesis
    proof (cases "k + 1 > max_colliding_points P")
      case True
      with \<open>inside_cylinder c0 a p\<close> show ?thesis by simp
    next
      case False
      have "0 \<le> k + 1" using Cons.prems by simp
      from Cons.IH [OF this] False \<open>inside_cylinder c0 a p\<close> show ?thesis
        by (auto simp: Let_def)
    qed
  next
    case False
    with Cons.IH [OF Cons.prems] show ?thesis by simp
  qed
qed

text \<open>
  Claim C2, as the code has it. \<^verbatim>\<open>isCollisionFree\<close> returns false if and only if the
  number of cloud points that satisfy the inside-cylinder test (on the upper-cap side of
  the supporting plane, between the two cap planes, squared distance from the axis at
  most the squared radius) exceeds the configured maximum and is at least one; for a
  maximum that is not negative this is: if and only if the count exceeds the maximum. A
  count equal to the maximum gives true, and so does an empty cloud, whatever the maximum.
\<close>

theorem isCollisionFree_count:
  "(isCollisionFree P cloud pose_st a = False \<longleftrightarrow>
      int (colliding_points (position (pose pose_st)) a cloud) > max_colliding_points P \<and>
      colliding_points (position (pose pose_st)) a cloud > 0) \<and>
   (0 \<le> max_colliding_points P \<longrightarrow>
      (isCollisionFree P cloud pose_st a = False \<longleftrightarrow>
         int (colliding_points (position (pose pose_st)) a cloud) > max_colliding_points P)) \<and>
   (int (colliding_points (position (pose pose_st)) a cloud) = max_colliding_points P \<longrightarrow>
      isCollisionFree P cloud pose_st a) \<and>
   isCollisionFree P [] pose_st a"
  using collision_scan_count [of 0 P "position (pose pose_st)" a cloud]
  by (auto simp: isCollisionFree_def colliding_points_def)

text \<open>
  With the shipped maximum of one point: two points inside the cylinder are a collision,
  one point inside (and one outside) is not.
\<close>

theorem isCollisionFree_count_witness:
  "(0::int) \<le> max_colliding_points launch_params \<and>
   colliding_points (Vector3d 0 0 0) (Vector3d 1 0 0)
       [Vector3d (-0.02) 0.01 0, Vector3d (-0.07) 0.01 0, Vector3d (-0.03) 0 0.02] = 2 \<and>
   isCollisionFree launch_params
       [Vector3d (-0.02) 0.01 0, Vector3d (-0.07) 0.01 0, Vector3d (-0.03) 0 0.02]
       origin_pose (Vector3d 1 0 0) = False \<and>
   colliding_points (Vector3d 0 0 0) (Vector3d 1 0 0)
       [Vector3d (-0.02) 0.01 0, Vector3d (-0.07) 0.01 0] = 1 \<and>
   isCollisionFree launch_params [Vector3d (-0.02) 0.01 0, Vector3d (-0.07) 0.01 0]
       origin_pose (Vector3d 1 0 0)"
  using isCollisionFree_count [of launch_params
      "[Vector3d (-0.02) 0.01 0, Vector3d (-0.07) 0.01 0, Vector3d (-0.03) 0 0.02]"
      origin_pose "Vector3d 1 0 0"]
    isCollisionFree_count [of launch_params
      "[Vector3d (-0.02) 0.01 0, Vector3d (-0.07) 0.01 0]" origin_pose "Vector3d 1 0 0"]
  by (simp add: colliding_points_def inside_cylinder_def squaredNorm_def launch_params_def
      origin_pose_def)

text \<open>
  The claim as first stated (false exactly when the count exceeds the maximum) fails for a
  negative maximum and no matching point: the count 0 exceeds \<open>-1\<close>, yet the scan never
  compares and returns true.
\<close>

theorem isCollisionFree_negative_max_counterexample:
  "\<not> (isCollisionFree (launch_params\<lparr>max_colliding_points := -1\<rparr>) [] origin_pose
         (Vector3d 1 0 0) = False
       \<longleftrightarrow> int (colliding_points (position (pose origin_pose)) (Vector3d 1 0 0) [])
             > max_colliding_points (launch_params\<lparr>max_colliding_points := -1\<rparr>))"
  by (simp add: isCollisionFree_def colliding_points_def launch_params_def)

subsection \<open>solveIK\<close>

lemma extractJointPositions_length:
  "extractJointPositions P resp = Inr js \<Longrightarrow>
     int (length js) = ik_last_joint_index P - ik_first_joint_index P + 1"
  by (auto simp: extractJointPositions_def Let_def split: if_splits)

text \<open>
  Claim C3, as the code has it. The joint-space backend (MoveIt) returns failure with an
  empty joint sequence exactly when the response carries the status \<open>NO_IK_SOLUTION\<close>; on
  any other status it returns success with the configured contiguous range
  \<open>[first, last]\<close> of the full-robot joint vector, which must lie inside that vector, so
  the solution has \<open>last - first + 1\<close> entries. The closed-form backend (OpenRAVE) returns
  the service's success flag and solution vector as they are. Hence a failure of the
  joint-space backend always has empty joints, while for the closed-form backend the
  relation between flag and joints is the service's.
\<close>

theorem solveIK_backends:
  "(planning_lib P = MOVE_IT \<longrightarrow>
      (error_code_val (fst (solveIKMoveIt P env w pose_st n t)) = NO_IK_SOLUTION \<longrightarrow>
         solveIK P env w pose_st n t =
           Inr (\<lparr> success = False, joint_positions = [] \<rparr>, snd (solveIKMoveIt P env w pose_st n t))) \<and>
      (error_code_val (fst (solveIKMoveIt P env w pose_st n t)) \<noteq> NO_IK_SOLUTION \<longrightarrow>
       0 \<le> ik_first_joint_index P \<longrightarrow> ik_first_joint_index P \<le> ik_last_joint_index P + 1 \<longrightarrow>
       ik_last_joint_index P + 1
         \<le> int (length (joint_state_position (fst (solveIKMoveIt P env w pose_st n t)))) \<longrightarrow>
         solveIK P env w pose_st n t =
           Inr (\<lparr> success = True,
                  joint_positions =
                    take (nat (ik_last_joint_index P - ik_first_joint_index P + 1))
                      (drop (nat (ik_first_joint_index P))
                         (joint_state_position (fst (solveIKMoveIt P env w pose_st n t)))) \<rparr>,
                snd (solveIKMoveIt P env w pose_st n t))) \<and>
      (\<forall>ik w'. solveIK P env w pose_st n t = Inr (ik, w') \<longrightarrow>
         (success ik \<longleftrightarrow>
            error_code_val (fst (solveIKMoveIt P env w pose_st n t)) \<noteq> NO_IK_SOLUTION) \<and>
         (\<not> success ik \<longrightarrow> joint_positions ik = []) \<and>
         int (length (joint_positions ik)) =
           (if success ik then ik_last_joint_index P - ik_first_joint_index P + 1 else 0))) \<and>
   (planning_lib P = OPEN_RAVE \<longrightarrow>
      solveIK P env w pose_st n t =
        Inr (\<lparr> success = srv_success (fst (solveIKOpenRave env w pose_st)),
               joint_positions = srv_solution (fst (solveIKOpenRave env w pose_st)) \<rparr>,
             snd (solveIKOpenRave env w pose_st)))"
proof -
  obtain resp w1 where m: "solveIKMoveIt P env w pose_st n t = (resp, w1)"
    by (cases "solveIKMoveIt P env w pose_st n t")
  obtain r2 w2 where r: "solveIKOpenRave env w pose_st = (r2, w2)"
    by (cases "solveIKOpenRave env w pose_st")
  have a: "solveIK P env w pose_st n t = Inr (\<lparr> success = False, joint_positions = [] \<rparr>, w1)"
    if "planning_lib P = MOVE_IT" "error_code_val resp = NO_IK_SOLUTION"
    using that by (simp add: solveIK_def m)
  have b: "solveIK P env w pose_st n t =
           Inr (\<lparr> success = True,
                  joint_positions =
                    take (nat (ik_last_joint_index P - ik_first_joint_index P + 1))
                      (drop (nat (ik_first_joint_index P)) (joint_state_position resp)) \<rparr>, w1)"
    if "planning_lib P = MOVE_IT" "error_code_val resp \<noteq> NO_IK_SOLUTION"
      "0 \<le> ik_first_joint_index P" "ik_first_joint_index P \<le> ik_last_joint_index P + 1"
      "ik_last_joint_index P + 1 \<le> int (length (joint_state_position resp))"
    using that by (simp add: solveIK_def m extractJointPositions_def Let_def)
  have c: "(success ik \<longleftrightarrow> error_code_val resp \<noteq> NO_IK_SOLUTION) \<and>
         (\<not> success ik \<longrightarrow> joint_positions ik = []) \<and>
         int (length (joint_positions ik)) =
           (if success ik then ik_last_joint_index P - ik_first_joint_index P + 1 else 0)"
    if "planning_lib P = MOVE_IT" "solveIK P env w pose_st n t = Inr (ik, w')" for ik w'
  proof (cases "error_code_val resp = NO_IK_SOLUTION")
    case True
    with that a show ?thesis by auto
  next
    case False
    with that obtain js where js: "extractJointPositions P resp = Inr js"
      and ik: "ik = \<lparr> success = True, joint_positions = js \<rparr>"
      by (auto simp: solveIK_def m split: sum.splits)
    from extractJointPositions_length [OF js] ik False show ?thesis by simp
  qed
  have d: "solveIK P env w pose_st n t =
        Inr (\<lparr> success = srv_success r2, joint_positions = srv_solution r2 \<rparr>, w2)"
    if "planning_lib P = OPEN_RAVE"
    using that by (simp add: solveIK_def r)
  have ab: "planning_lib P = MOVE_IT \<longrightarrow>
      (error_code_val resp = NO_IK_SOLUTION \<longrightarrow>
         solveIK P env w pose_st n t = Inr (\<lparr> success = False, joint_positions = [] \<rparr>, w1)) \<and>
      (error_code_val resp \<noteq> NO_IK_SOLUTION \<longrightarrow>
       0 \<le> ik_first_joint_index P \<longrightarrow> ik_first_joint_index P \<le> ik_last_joint_index P + 1 \<longrightarrow>
       ik_last_joint_index P + 1 \<le> int (length (joint_state_position resp)) \<longrightarrow>
         solveIK P env w pose_st n t =
           Inr (\<lparr> success = True,
                  joint_positions =
                    take (nat (ik_last_joint_index P - ik_first_joint_index P + 1))
                      (drop (nat (ik_first_joint_index P)) (joint_state_position resp)) \<rparr>, w1))"
    using a b by blast
  have cc: "planning_lib P = MOVE_IT \<longrightarrow>
      (\<forall>ik w'. solveIK P env w pose_st n t = Inr (ik, w') \<longrightarrow>
         (success ik \<longleftrightarrow> error_code_val resp \<noteq> NO_IK_SOLUTION) \<and>
         (\<not> success ik \<longrightarrow> joint_positions ik = []) \<and>
         int (length (joint_positions ik)) =
           (if success ik then ik_last_joint_index P - ik_first_joint_index P + 1 else 0))"
    using c by blast
  have dd: "planning_lib P = OPEN_RAVE \<longrightarrow>
      solveIK P env w pose_st n t =
        Inr (\<lparr> success = srv_success r2, joint_positions = srv_solution r2 \<rparr>, w2)"
    using d by blast
  show ?thesis
    unfolding m r fst_conv snd_conv
    using ab cc dd by (intro conjI impI) blast+
qed

theorem solveIK_backends_witness:
  "planning_lib launch_params = MOVE_IT \<and>
   solveIK launch_params robot_answers 0 origin_pose 1 1
     = Inr (\<lparr> success = True, joint_positions = [8, 9, 10, 11, 12, 13, 14] \<rparr>, 1) \<and>
   solveIK launch_params empty_answers 0 origin_pose 1 1
     = Inr (\<lparr> success = False, joint_positions = [] \<rparr>, 1) \<and>
   planning_lib (launch_params\<lparr>planning_lib := OPEN_RAVE\<rparr>) = OPEN_RAVE \<and>
   solveIK (launch_params\<lparr>planning_lib := OPEN_RAVE\<rparr>) robot_answers 0 origin_pose 1 1
     = Inr (\<lparr> success = True, joint_positions = [1, 2, 3, 4, 5, 6, 7] \<rparr>, 1)"
proof -
  have lib: "planning_lib launch_params = MOVE_IT"
    by (simp add: launch_params_def)
  have resp: "solveIKMoveIt launch_params robot_answers 0 origin_pose 1 1 =
      (\<lparr> error_code_val = 1,
         joint_state_position = [0, 1, 2, 3, 4, 5, 6, 7, 8, 9, 10, 11, 12, 13, 14, 15, 16] \<rparr>, 1)"
    by (simp add: solveIKMoveIt_def robot_answers_def)
  have pre: "error_code_val (fst (solveIKMoveIt launch_params robot_answers 0 origin_pose 1 1))
        \<noteq> NO_IK_SOLUTION"
      "0 \<le> ik_first_joint_index launch_params"
      "ik_first_joint_index launch_params \<le> ik_last_joint_index launch_params + 1"
      "ik_last_joint_index launch_params + 1 \<le> int (length (joint_state_position
          (fst (solveIKMoveIt launch_params robot_answers 0 origin_pose 1 1))))"
    by (simp_all add: resp NO_IK_SOLUTION_def) (simp_all add: launch_params_def)
  have first: "nat (ik_first_joint_index launch_params) = 8"
    and count: "nat (ik_last_joint_index launch_params - ik_first_joint_index launch_params + 1) = 7"
    by (simp_all add: launch_params_def)
  from solveIK_backends [of launch_params robot_answers 0 origin_pose 1 1] lib pre
  have "solveIK launch_params robot_answers 0 origin_pose 1 1 =
      Inr (\<lparr> success = True,
             joint_positions =
               take (nat (ik_last_joint_index launch_params - ik_first_joint_index launch_params + 1))
                 (drop (nat (ik_first_joint_index launch_params))
                    (joint_state_position
                       (fst (solveIKMoveIt launch_params robot_answers 0 origin_pose 1 1)))) \<rparr>,
           snd (solveIKMoveIt launch_params robot_answers 0 origin_pose 1 1))"
    by blast
  then have one: "solveIK launch_params robot_answers 0 origin_pose 1 1
     = Inr (\<lparr> success = True, joint_positions = [8, 9, 10, 11, 12, 13, 14] \<rparr>, 1)"
    by (simp add: resp first count)
  have resp0: "solveIKMoveIt launch_params empty_answers 0 origin_pose 1 1 =
      (\<lparr> error_code_val = NO_IK_SOLUTION, joint_state_position = [] \<rparr>, 1)"
    by (simp add: solveIKMoveIt_def robot_answers_def empty_answers_def)
  from solveIK_backends [of launch_params empty_answers 0 origin_pose 1 1] lib
  have "error_code_val (fst (solveIKMoveIt launch_params empty_answers 0 origin_pose 1 1))
          = NO_IK_SOLUTION \<longrightarrow>
        solveIK launch_params empty_answers 0 origin_pose 1 1 =
          Inr (\<lparr> success = False, joint_positions = [] \<rparr>,
               snd (solveIKMoveIt launch_params empty_answers 0 origin_pose 1 1))"
    by blast
  then have two: "solveIK launch_params empty_answers 0 origin_pose 1 1
     = Inr (\<lparr> success = False, joint_positions = [] \<rparr>, 1)"
    by (simp add: resp0)
  have lib2: "planning_lib (launch_params\<lparr>planning_lib := OPEN_RAVE\<rparr>) = OPEN_RAVE"
    by simp
  have resp2: "solveIKOpenRave robot_answers 0 origin_pose =
      (\<lparr> srv_success = True, srv_solution = [1, 2, 3, 4, 5, 6, 7] \<rparr>, 1)"
    by (simp add: solveIKOpenRave_def robot_answers_def)
  from solveIK_backends [of "launch_params\<lparr>planning_lib := OPEN_RAVE\<rparr>" robot_answers 0
      origin_pose 1 1] lib2
  have "solveIK (launch_params\<lparr>planning_lib := OPEN_RAVE\<rparr>) robot_answers 0 origin_pose 1 1 =
        Inr (\<lparr> success = srv_success (fst (solveIKOpenRave robot_answers 0 origin_pose)),
               joint_positions = srv_solution (fst (solveIKOpenRave robot_answers 0 origin_pose)) \<rparr>,
             snd (solveIKOpenRave robot_answers 0 origin_pose))"
    by blast
  then have three: "solveIK (launch_params\<lparr>planning_lib := OPEN_RAVE\<rparr>) robot_answers 0
       origin_pose 1 1
     = Inr (\<lparr> success = True, joint_positions = [1, 2, 3, 4, 5, 6, 7] \<rparr>, 1)"
    by (simp add: resp2)
  show ?thesis
    using lib one two lib2 three by blast
qed

text \<open>
  "Joints empty if and only if success is false" is not enforced: the closed-form backend
  hands on a response that reports success with an empty solution vector.
\<close>

theorem solveIK_empty_success_counterexample:
  "solveIK (launch_params\<lparr>planning_lib := OPEN_RAVE\<rparr>) empty_answers 0 origin_pose 1 1
     = Inr (\<lparr> success = True, joint_positions = [] \<rparr>, 1) \<and>
   \<not> (joint_positions \<lparr> success = True, joint_positions = [] \<rparr> = []
        \<longleftrightarrow> \<not> success \<lparr> success = True, joint_positions = [] \<rparr>)"
  by (simp add: solveIK_def launch_params_def robot_answers_def empty_answers_def
      solveIKOpenRave_def)

subsection \<open>selectFeasibleGrasps: one pass through the loop body\<close>

lemma emitted_append: "emitted (a @ b) = emitted a @ emitted b"
  by (induction a rule: emitted.induct) simp_all

lemma try_orientation_Inr:
  assumes "solveIK P env (world st) (createGraspPose P rot q theta)
             (default_attempts env) (default_timeout env) = Inr (ik, w')"
  shows "try_orientation P env cloud i g j theta rot k q flag st =
     Inr (if success ik \<and> \<not> flag
          then isCollisionFree P cloud (createGraspPose P rot q theta) (approach rot) else flag,
          st\<lparr> world := w',
              grasps_selected := grasps_selected st @
                emitted (orientation_events i j k (createGraspPose P rot q theta) ik flag
                  (isCollisionFree P cloud (createGraspPose P rot q theta) (approach rot))
                  (make_entry i g rot (createGraspPose P rot q theta) ik)),
              trace := trace st @
                orientation_events i j k (createGraspPose P rot q theta) ik flag
                  (isCollisionFree P cloud (createGraspPose P rot q theta) (approach rot))
                  (make_entry i g rot (createGraspPose P rot q theta) ik) \<rparr>)"
  using assms
  by (simp add: try_orientation_def Let_def orientation_events_def make_entry_def push_back_def)

lemma try_orientation_Inl:
  assumes "solveIK P env (world st) (createGraspPose P rot q theta)
             (default_attempts env) (default_timeout env) = Inl e"
  shows "try_orientation P env cloud i g j theta rot k q flag st = Inl e"
  using assms by (simp add: try_orientation_def Let_def)


lemma calculateHandOrientations_two:
  "calculateHandOrientations P env g = Inr quats \<Longrightarrow> \<exists>qA qB. quats = [qA, qB]"
  by (auto simp: calculateHandOrientations_def Let_def split: sum.splits prod.splits)

lemma isCollisionFree_same_position:
  "isCollisionFree P cloud (createGraspPose P rot q theta) a =
   isCollisionFree P cloud (createGraspPose P rot q' theta) a"
  by (simp add: isCollisionFree_def createGraspPose_def Let_def)

lemma try_orientation_result:
  assumes "try_orientation P env cloud i g j theta rot k q flag st = Inr (flag', st')"
  shows "\<exists>ik w'. solveIK P env (world st) (createGraspPose P rot q theta)
             (default_attempts env) (default_timeout env) = Inr (ik, w') \<and>
           flag' = (if success ik \<and> \<not> flag
              then isCollisionFree P cloud (createGraspPose P rot q theta) (approach rot)
              else flag) \<and>
           world st' = w' \<and>
           trace st' = trace st @
                orientation_events i j k (createGraspPose P rot q theta) ik flag
                  (isCollisionFree P cloud (createGraspPose P rot q theta) (approach rot))
                  (make_entry i g rot (createGraspPose P rot q theta) ik) \<and>
           grasps_selected st' = grasps_selected st @
                emitted (orientation_events i j k (createGraspPose P rot q theta) ik flag
                  (isCollisionFree P cloud (createGraspPose P rot q theta) (approach rot))
                  (make_entry i g rot (createGraspPose P rot q theta) ik))"
proof (cases "solveIK P env (world st) (createGraspPose P rot q theta)
             (default_attempts env) (default_timeout env)")
  case (Inl e)
  from try_orientation_Inl [OF this] assms show ?thesis by simp
next
  case (Inr r)
  obtain ik w' where r: "r = (ik, w')" by (cases r)
  from try_orientation_Inr [OF Inr [unfolded r], of cloud i g j k flag] assms
  have "flag' = (if success ik \<and> \<not> flag
              then isCollisionFree P cloud (createGraspPose P rot q theta) (approach rot)
              else flag)"
    and "st' = st\<lparr> world := w',
              grasps_selected := grasps_selected st @
                emitted (orientation_events i j k (createGraspPose P rot q theta) ik flag
                  (isCollisionFree P cloud (createGraspPose P rot q theta) (approach rot))
                  (make_entry i g rot (createGraspPose P rot q theta) ik)),
              trace := trace st @
                orientation_events i j k (createGraspPose P rot q theta) ik flag
                  (isCollisionFree P cloud (createGraspPose P rot q theta) (approach rot))
                  (make_entry i g rot (createGraspPose P rot q theta) ik) \<rparr>"
    by simp_all
  with Inr r show ?thesis by simp
qed


subsection \<open>Every run leaves a trace of the described shape\<close>

lemma orientations_loop_trace:
  "orientations_loop P env cloud i g j theta rot k quats flag st = Inr st' \<Longrightarrow>
   \<exists>new. trace st' = trace st @ new \<and>
         grasps_selected st' = grasps_selected st @ emitted new \<and>
         frame_trace P cloud i g j theta rot k quats flag new"
proof (induction quats arbitrary: k flag st)
  case Nil
  then show ?case by (auto intro: frame_done)
next
  case (Cons q quats)
  from Cons.prems obtain flag1 st1
    where step: "try_orientation P env cloud i g j theta rot k q flag st = Inr (flag1, st1)"
      and rest: "orientations_loop P env cloud i g j theta rot (Suc k) quats flag1 st1 = Inr st'"
    by (auto split: sum.splits)
  from try_orientation_result [OF step] obtain ik
    where flag1: "flag1 = (if success ik \<and> \<not> flag
              then isCollisionFree P cloud (createGraspPose P rot q theta) (approach rot)
              else flag)"
      and tr1: "trace st1 = trace st @
                orientation_events i j k (createGraspPose P rot q theta) ik flag
                  (isCollisionFree P cloud (createGraspPose P rot q theta) (approach rot))
                  (make_entry i g rot (createGraspPose P rot q theta) ik)"
      and gs1: "grasps_selected st1 = grasps_selected st @
                emitted (orientation_events i j k (createGraspPose P rot q theta) ik flag
                  (isCollisionFree P cloud (createGraspPose P rot q theta) (approach rot))
                  (make_entry i g rot (createGraspPose P rot q theta) ik))"
    by blast
  from Cons.IH [OF rest] obtain new
    where tr': "trace st' = trace st1 @ new"
      and gs': "grasps_selected st' = grasps_selected st1 @ emitted new"
      and ft: "frame_trace P cloud i g j theta rot (Suc k) quats flag1 new"
    by blast
  have "frame_trace P cloud i g j theta rot k (q # quats) flag
         (orientation_events i j k (createGraspPose P rot q theta) ik flag
                  (isCollisionFree P cloud (createGraspPose P rot q theta) (approach rot))
                  (make_entry i g rot (createGraspPose P rot q theta) ik) @ new)"
    using ft unfolding flag1 by (rule frame_step)
  with tr' gs' tr1 gs1 show ?case
    by (auto simp: emitted_append)
qed


lemma angles_loop_trace:
  "angles_loop P env cloud i g ge j thetas st = Inr st' \<Longrightarrow>
   \<exists>new. trace st' = trace st @ new \<and>
         grasps_selected st' = grasps_selected st @ emitted new \<and>
         angles_trace P env cloud i g ge j thetas new"
proof (induction thetas arbitrary: j st)
  case Nil
  then show ?case by (auto intro: angles_done)
next
  case (Cons theta thetas)
  from Cons.prems obtain st1
    where step: "check_frame P env cloud i g ge j theta st = Inr st1"
      and rest: "angles_loop P env cloud i g ge (Suc j) thetas st1 = Inr st'"
    by (auto split: sum.splits)
  from step obtain quats
    where quats: "calculateHandOrientations P env (rotateGrasp ge theta) = Inr quats"
      and loop: "orientations_loop P env cloud i g j theta (rotateGrasp ge theta) 0 quats False st
                 = Inr st1"
    by (auto simp: check_frame_def Let_def split: sum.splits)
  from orientations_loop_trace [OF loop] obtain a
    where a: "trace st1 = trace st @ a" "grasps_selected st1 = grasps_selected st @ emitted a"
      "frame_trace P cloud i g j theta (rotateGrasp ge theta) 0 quats False a"
    by blast
  from Cons.IH [OF rest] obtain b
    where b: "trace st' = trace st1 @ b" "grasps_selected st' = grasps_selected st1 @ emitted b"
      "angles_trace P env cloud i g ge (Suc j) thetas b"
    by blast
  have "angles_trace P env cloud i g ge j (theta # thetas) (a @ b)"
    using quats a(3) b(3) by (rule angles_step)
  with a b show ?case
    by (auto simp: emitted_append)
qed




subsection \<open>Loop indices of the events\<close>






subsection \<open>What an emitted entry holds\<close>





subsection \<open>Order of the emitted entries\<close>








subsection \<open>One frame, two orientations\<close>

lemma frame_trace_two:
  assumes "frame_trace P cloud i g j theta rot 0 [qA, qB] False new"
  shows "\<exists>ikA ikB. new =
      orientation_events i j 0 (createGraspPose P rot qA theta) ikA False
        (isCollisionFree P cloud (createGraspPose P rot qA theta) (approach rot))
        (make_entry i g rot (createGraspPose P rot qA theta) ikA) @
      orientation_events i j 1 (createGraspPose P rot qB theta) ikB
        (success ikA \<and> isCollisionFree P cloud (createGraspPose P rot qA theta) (approach rot))
        (isCollisionFree P cloud (createGraspPose P rot qA theta) (approach rot))
        (make_entry i g rot (createGraspPose P rot qB theta) ikB)"
proof -
  from assms obtain ikA rest1 where
    n1: "new = orientation_events i j 0 (createGraspPose P rot qA theta) ikA False
        (isCollisionFree P cloud (createGraspPose P rot qA theta) (approach rot))
        (make_entry i g rot (createGraspPose P rot qA theta) ikA) @ rest1"
    and r1: "frame_trace P cloud i g j theta rot (Suc 0) [qB]
        (if success ikA \<and> \<not> False
         then isCollisionFree P cloud (createGraspPose P rot qA theta) (approach rot)
         else False) rest1"
    by (cases rule: frame_trace.cases) auto
  from r1 obtain ikB rest2 where
    n2: "rest1 = orientation_events i j (Suc 0) (createGraspPose P rot qB theta) ikB
        (if success ikA \<and> \<not> False
         then isCollisionFree P cloud (createGraspPose P rot qA theta) (approach rot)
         else False)
        (isCollisionFree P cloud (createGraspPose P rot qB theta) (approach rot))
        (make_entry i g rot (createGraspPose P rot qB theta) ikB) @ rest2"
    and r2: "frame_trace P cloud i g j theta rot (Suc (Suc 0)) []
        (if success ikB \<and> \<not> (if success ikA \<and> \<not> False
         then isCollisionFree P cloud (createGraspPose P rot qA theta) (approach rot)
         else False)
         then isCollisionFree P cloud (createGraspPose P rot qB theta) (approach rot)
         else (if success ikA \<and> \<not> False
         then isCollisionFree P cloud (createGraspPose P rot qA theta) (approach rot)
         else False)) rest2"
    by (cases rule: frame_trace.cases) auto
  from r2 have "rest2 = []"
    by (cases rule: frame_trace.cases) auto
  with n1 n2 isCollisionFree_same_position [of P cloud rot qB theta "approach rot" qA]
  have "new =
      orientation_events i j 0 (createGraspPose P rot qA theta) ikA False
        (isCollisionFree P cloud (createGraspPose P rot qA theta) (approach rot))
        (make_entry i g rot (createGraspPose P rot qA theta) ikA) @
      orientation_events i j 1 (createGraspPose P rot qB theta) ikB
        (success ikA \<and> isCollisionFree P cloud (createGraspPose P rot qA theta) (approach rot))
        (isCollisionFree P cloud (createGraspPose P rot qA theta) (approach rot))
        (make_entry i g rot (createGraspPose P rot qB theta) ikB)"
    by (cases "success ikA") simp_all
  then show ?thesis by blast
qed

text \<open>
  Claim C1, as the code has it. For every rotated frame that \<^verbatim>\<open>selectFeasibleGrasps\<close>
  processes, both hand orientations are pose-tested against IK, A first and then B. The
  collision checker is called only for an orientation whose IK succeeded, and it gives
  the same answer for both orientations of the frame. Once it has answered
  "collision-free", the per-frame flag keeps that answer and the other orientation is
  emitted without another check: a collision-free frame costs exactly one check if some
  IK succeeded, and none otherwise. A frame for which the checker answers "collision"
  adds nothing to the output.
\<close>

theorem check_frame_collision_memo:
  assumes run: "check_frame P env cloud i g ge j theta st = Inr st'"
  shows "\<exists>qA qB ikA ikB new.
     calculateHandOrientations P env (rotateGrasp ge theta) = Inr [qA, qB] \<and>
     trace st' = trace st @ new \<and>
     grasps_selected st' = grasps_selected st @ emitted new \<and>
     filter is_ik new =
       [IK_Solved i j 0 (createGraspPose P (rotateGrasp ge theta) qA theta) ikA,
        IK_Solved i j 1 (createGraspPose P (rotateGrasp ge theta) qB theta) ikB] \<and>
     (\<forall>k b. Collision_Checked i j k b \<in> set new \<longrightarrow>
        b = isCollisionFree P cloud (createGraspPose P (rotateGrasp ge theta) qA theta)
              (approach (rotateGrasp ge theta)) \<and>
        (k = 0 \<and> success ikA \<or> k = 1 \<and> success ikB)) \<and>
     (isCollisionFree P cloud (createGraspPose P (rotateGrasp ge theta) qA theta)
        (approach (rotateGrasp ge theta)) \<longrightarrow>
        length (filter is_check new) = (if success ikA \<or> success ikB then 1 else 0) \<and>
        emitted new =
          (if success ikA
           then [make_entry i g (rotateGrasp ge theta)
                   (createGraspPose P (rotateGrasp ge theta) qA theta) ikA] else []) @
          (if success ikB
           then [make_entry i g (rotateGrasp ge theta)
                   (createGraspPose P (rotateGrasp ge theta) qB theta) ikB] else [])) \<and>
     (\<not> isCollisionFree P cloud (createGraspPose P (rotateGrasp ge theta) qA theta)
          (approach (rotateGrasp ge theta)) \<longrightarrow>
        emitted new = [] \<and> grasps_selected st' = grasps_selected st)"
proof -
  define rot where "rot = rotateGrasp ge theta"
  from run obtain quats
    where quats: "calculateHandOrientations P env rot = Inr quats"
      and loop: "orientations_loop P env cloud i g j theta rot 0 quats False st = Inr st'"
    by (auto simp: check_frame_def Let_def rot_def split: sum.splits)
  from calculateHandOrientations_two [OF quats] obtain qA qB where q: "quats = [qA, qB]"
    by blast
  from orientations_loop_trace [OF loop] obtain new
    where tr: "trace st' = trace st @ new"
      and gs: "grasps_selected st' = grasps_selected st @ emitted new"
      and ft: "frame_trace P cloud i g j theta rot 0 quats False new"
    by blast
  define free where "free = isCollisionFree P cloud (createGraspPose P rot qA theta) (approach rot)"
  from frame_trace_two [OF ft [unfolded q]] obtain ikA ikB where
    new: "new =
      orientation_events i j 0 (createGraspPose P rot qA theta) ikA False free
        (make_entry i g rot (createGraspPose P rot qA theta) ikA) @
      orientation_events i j 1 (createGraspPose P rot qB theta) ikB (success ikA \<and> free) free
        (make_entry i g rot (createGraspPose P rot qB theta) ikB)"
    unfolding free_def by blast
  have iks: "filter is_ik new =
       [IK_Solved i j 0 (createGraspPose P rot qA theta) ikA,
        IK_Solved i j 1 (createGraspPose P rot qB theta) ikB]"
    unfolding new by (simp add: orientation_events_def)
  have checks: "b = free \<and> (k = 0 \<and> success ikA \<or> k = 1 \<and> success ikB)"
    if "Collision_Checked i j k b \<in> set new" for k b
    using that unfolding new by (auto simp: orientation_events_def split: if_splits)
  have memo: "length (filter is_check new) = (if success ikA \<or> success ikB then 1 else 0)"
    if free
    using that unfolding new by (simp add: orientation_events_def)
  have out: "emitted new =
          (if success ikA then [make_entry i g rot (createGraspPose P rot qA theta) ikA] else []) @
          (if success ikB then [make_entry i g rot (createGraspPose P rot qB theta) ikB] else [])"
    if free
    using that unfolding new by (simp add: orientation_events_def emitted_append)
  have none: "emitted new = []" if "\<not> free"
    using that unfolding new by (simp add: orientation_events_def emitted_append)
  show ?thesis
    apply (rule exI [of _ qA], rule exI [of _ qB], rule exI [of _ ikA], rule exI [of _ ikB],
        rule exI [of _ new])
    unfolding rot_def [symmetric] free_def [symmetric]
    using quats [unfolded q] tr gs iks checks memo out none
    by simp
qed

subsection \<open>Runs that do not fault\<close>

text \<open>
  The only faults of the model are an axis index outside 0..2 and a joint range outside
  the response vector. With a valid axis order and an IK client that never faults (the
  closed-form backend never does), \<^verbatim>\<open>selectFeasibleGrasps\<close> returns for every batch and
  cloud.
\<close>

lemma try_orientation_returns:
  assumes "\<And>w p. \<exists>r. solveIK P env w p (default_attempts env) (default_timeout env) = Inr r"
  shows "\<exists>r. try_orientation P env cloud i g j theta rot k q flag st = Inr r"
proof -
  from assms obtain ik w' where
    "solveIK P env (world st) (createGraspPose P rot q theta)
       (default_attempts env) (default_timeout env) = Inr (ik, w')"
    by (metis surj_pair)
  from try_orientation_Inr [OF this] show ?thesis by blast
qed

lemma orientations_loop_returns:
  assumes "\<And>w p. \<exists>r. solveIK P env w p (default_attempts env) (default_timeout env) = Inr r"
  shows "\<exists>st'. orientations_loop P env cloud i g j theta rot k quats flag st = Inr st'"
proof (induction quats arbitrary: k flag st)
  case Nil
  then show ?case by simp
next
  case (Cons q quats)
  from try_orientation_returns [OF assms] obtain flag1 st1 where
    "try_orientation P env cloud i g j theta rot k q flag st = Inr (flag1, st1)"
    by (metis surj_pair)
  with Cons.IH [of "Suc k" flag1 st1] show ?case by simp
qed

lemma calculateHandOrientations_returns:
  assumes "axis_order P = [a0, a1, a2]" "a0 \<in> {0, 1, 2}" "a1 \<in> {0, 1, 2}" "a2 \<in> {0, 1, 2}"
  shows "\<exists>quats. calculateHandOrientations P env g = Inr quats"
proof -
  obtain R Q where f: "hand_frames g = (R, Q)" by (cases "hand_frames g")
  from reorderHandAxes_cols [OF assms] obtain R1 where "reorderHandAxes P R = Inr R1" by blast
  moreover from reorderHandAxes_cols [OF assms] obtain R2 where "reorderHandAxes P Q = Inr R2"
    by blast
  ultimately show ?thesis
    by (simp add: calculateHandOrientations_def f)
qed

lemma angles_loop_returns:
  assumes "\<And>w p. \<exists>r. solveIK P env w p (default_attempts env) (default_timeout env) = Inr r"
    and "axis_order P = [a0, a1, a2]" "a0 \<in> {0, 1, 2}" "a1 \<in> {0, 1, 2}" "a2 \<in> {0, 1, 2}"
  shows "\<exists>st'. angles_loop P env cloud i g ge j thetas st = Inr st'"
proof (induction thetas arbitrary: j st)
  case Nil
  then show ?case by simp
next
  case (Cons theta thetas)
  from calculateHandOrientations_returns [OF assms(2-5)] obtain quats where
    q: "calculateHandOrientations P env (rotateGrasp ge theta) = Inr quats" by blast
  from orientations_loop_returns [OF assms(1)] obtain st1 where
    "orientations_loop P env cloud i g j theta (rotateGrasp ge theta) 0 quats False st = Inr st1"
    by blast
  with q have "check_frame P env cloud i g ge j theta st = Inr st1"
    by (simp add: check_frame_def)
  with Cons.IH [of "Suc j" st1] show ?case by simp
qed

lemma selectFeasibleGrasps_returns:
  assumes "\<And>w p. \<exists>r. solveIK P env w p (default_attempts env) (default_timeout env) = Inr r"
    and "axis_order P = [a0, a1, a2]" "a0 \<in> {0, 1, 2}" "a1 \<in> {0, 1, 2}" "a2 \<in> {0, 1, 2}"
  shows "\<exists>st'. selectFeasibleGrasps P env cloud w grasps = Inr st'"
proof -
  have "\<exists>st'. grasps_loop P env cloud i grasps st = Inr st'" for i st
  proof (induction grasps arbitrary: i st)
    case Nil
    then show ?case by simp
  next
    case (Cons g grasps)
    have "\<exists>st1. check_grasp P env cloud i g st = Inr st1"
      using angles_loop_returns [OF assms] by (simp add: check_grasp_def)
    then obtain st1 where "check_grasp P env cloud i g st = Inr st1" by blast
    with Cons.IH [of "Suc i" st1] show ?case by simp
  qed
  then show ?thesis by (simp add: selectFeasibleGrasps_def)
qed

lemma solveIK_OPEN_RAVE_returns:
  "planning_lib P = OPEN_RAVE \<Longrightarrow> \<exists>r. solveIK P env w p n t = Inr r"
  by (simp add: solveIK_def split: prod.splits)

subsection \<open>The IK calls of a candidate\<close>

lemma orientation_events_ik:
  "filter is_ik (orientation_events i j k pose0 ik flag free entry) = [IK_Solved i j k pose0 ik]"
  by (simp add: orientation_events_def)

lemma frame_trace_ik_tags:
  "frame_trace P cloud i g j theta rot k quats flag new \<Longrightarrow>
   map ev_tag (filter is_ik new) = map (\<lambda>k'. (i, j, k')) [k..<k + length quats]"
proof (induction rule: frame_trace.induct)
  case (frame_done k flag)
  then show ?case by simp
next
  case (frame_step k quats ik flag quat rest)
  have "k < k + length (quat # quats)" by simp
  from upt_conv_Cons [OF this]
  have "[k..<k + length (quat # quats)] = k # [Suc k..<Suc k + length quats]"
    by simp
  with frame_step.IH show ?case
    by (simp add: orientation_events_ik)
qed

lemma angles_trace_ik_tags:
  "angles_trace P env cloud i g ge j thetas new \<Longrightarrow>
   map ev_tag (filter is_ik new) =
     concat (map (\<lambda>j'. [(i, j', 0), (i, j', 1)]) [j..<j + length thetas])"
proof (induction rule: angles_trace.induct)
  case (angles_done j)
  then show ?case by simp
next
  case (angles_step theta quats j a thetas b)
  from calculateHandOrientations_two [OF angles_step.hyps(1)]
  have len: "length quats = 2" by auto
  have a: "map ev_tag (filter is_ik a) = [(i, j, 0), (i, j, 1)]"
    using frame_trace_ik_tags [OF angles_step.hyps(2)] len
    by (simp add: upt_conv_Cons numeral_2_eq_2)
  have "j < j + length (theta # thetas)" by simp
  from upt_conv_Cons [OF this]
  have "[j..<j + length (theta # thetas)] = j # [Suc j..<Suc j + length thetas]"
    by simp
  with a angles_step.IH show ?case
    by simp
qed

lemma orientation_events_ik_pose:
  "IK_Solved i' j' k' p s \<in> set (orientation_events i j k pose0 ik flag free entry) \<Longrightarrow>
   i' = i \<and> j' = j \<and> k' = k \<and> p = pose0"
  by (auto simp: orientation_events_def split: if_splits)

lemma frame_trace_ik_pose:
  "frame_trace P cloud i g j theta rot k quats flag new \<Longrightarrow>
   IK_Solved i' j' k' p s \<in> set new \<Longrightarrow>
   i' = i \<and> j' = j \<and> k \<le> k' \<and> k' < k + length quats \<and>
   p = createGraspPose P rot (quats ! (k' - k)) theta"
proof (induction rule: frame_trace.induct)
  case (frame_done k flag)
  then show ?case by simp
next
  case (frame_step k quats ik flag quat rest)
  from frame_step.prems consider
    (block) "IK_Solved i' j' k' p s \<in>
            set (orientation_events i j k (createGraspPose P rot quat theta) ik flag
              (isCollisionFree P cloud (createGraspPose P rot quat theta) (approach rot))
              (make_entry i g rot (createGraspPose P rot quat theta) ik))"
    | (rest) "IK_Solved i' j' k' p s \<in> set rest"
    by auto
  then show ?case
  proof cases
    case block
    from orientation_events_ik_pose [OF this] show ?thesis by auto
  next
    case rest
    from frame_step.IH [OF this] have
      t: "i' = i" "j' = j" "Suc k \<le> k'" "k' < Suc k + length quats"
      "p = createGraspPose P rot (quats ! (k' - Suc k)) theta"
      by auto
    from t(3) have "(quat # quats) ! (k' - k) = quats ! (k' - Suc k)"
      by (simp add: nth_Cons')
    with t show ?thesis by auto
  qed
qed

lemma angles_trace_ik_pose:
  "angles_trace P env cloud i g ge j thetas new \<Longrightarrow>
   IK_Solved i' j' k' p s \<in> set new \<Longrightarrow>
   i' = i \<and> j \<le> j' \<and> j' < j + length thetas \<and>
   (\<exists>quats. calculateHandOrientations P env (rotateGrasp ge (thetas ! (j' - j))) = Inr quats \<and>
      k' < length quats \<and>
      p = createGraspPose P (rotateGrasp ge (thetas ! (j' - j))) (quats ! k') (thetas ! (j' - j)))"
proof (induction rule: angles_trace.induct)
  case (angles_done j)
  then show ?case by simp
next
  case (angles_step theta quats j a thetas b)
  from angles_step.prems consider (a) "IK_Solved i' j' k' p s \<in> set a"
    | (b) "IK_Solved i' j' k' p s \<in> set b" by auto
  then show ?case
  proof cases
    case a
    from frame_trace_ik_pose [OF angles_step.hyps(2) this] angles_step.hyps(1)
    show ?thesis by auto
  next
    case b
    from angles_step.IH [OF this] obtain quats' where
      t: "i' = i" "Suc j \<le> j'" "j' < Suc j + length thetas"
      "calculateHandOrientations P env (rotateGrasp ge (thetas ! (j' - Suc j))) = Inr quats'"
      "k' < length quats'"
      "p = createGraspPose P (rotateGrasp ge (thetas ! (j' - Suc j))) (quats' ! k')
             (thetas ! (j' - Suc j))"
      by blast
    from t(2) have "(theta # thetas) ! (j' - j) = thetas ! (j' - Suc j)"
      by (simp add: nth_Cons')
    with t show ?thesis by auto
  qed
qed

lemma LinSpaced_nth:
  assumes "1 < n" "m < n"
  shows "length (LinSpaced n low high) = n"
    and "LinSpaced n low high ! m = low + real m * ((high - low) / real (n - 1))"
  using assms by (simp_all add: LinSpaced_def)

lemma ik_tag_event:
  assumes "(i, j, k) \<in> set (map ev_tag (filter is_ik new))"
  shows "\<exists>p s. IK_Solved i j k p s \<in> set new"
proof -
  from assms obtain e where e: "e \<in> set new" "is_ik e" "ev_tag e = (i, j, k)"
    by auto
  show ?thesis
  proof (cases e)
    case (IK_Solved i' j' k' p s)
    with e show ?thesis by auto
  next
    case (Collision_Checked i' j' k' b)
    with e show ?thesis by simp
  next
    case (Grasp_Emitted i' j' k' g)
    with e show ?thesis by simp
  qed
qed

lemma frame_tag_listed:
  assumes "j < n" "k < (2::nat)"
  shows "(i, j, k) \<in> set (concat (map (\<lambda>j. [(i, j, 0), (i, j, 1)]) [0..<n]))"
proof -
  from assms(2) have "k = 0 \<or> k = 1" by auto
  with assms(1) show ?thesis by auto
qed

text \<open>
  Claim C4. With \<open>k = 0\<close> additional grasps the only sampled angle is 0 degrees. With
  \<open>k > 0\<close> there are \<open>k + 1\<close> angles, the \<open>n\<close>-th being \<open>-15 + n * 30 / k\<close>: evenly spaced
  from -15 to 15 degrees, both ends included; for \<open>k = 3\<close> they are -15, -5, 5, 15. Each
  sampled angle gives one rotated frame. Whenever the body of the candidate loop returns
  for a candidate that passes the tests, its IK calls are those of the angle indices
  \<open>0, ..., length - 1\<close> in turn, two for each, on poses built from the frame rotated by
  that angle. And it does return, with an IK call on the frame of every sampled angle and
  either orientation, when the axis order is valid and the IK client does not fault.
\<close>

theorem sample_angles_spec:
  "(num_additional_grasps P = 0 \<longrightarrow> sample_angles P = [0]) \<and>
   (0 < num_additional_grasps P \<longrightarrow>
      length (sample_angles P) = nat (num_additional_grasps P) + 1 \<and>
      (\<forall>n\<le>nat (num_additional_grasps P).
         sample_angles P ! n = - 15 + real n * (30 / real_of_int (num_additional_grasps P))) \<and>
      sample_angles P ! 0 = - 15 \<and>
      sample_angles P ! nat (num_additional_grasps P) = 15) \<and>
   (num_additional_grasps P = 3 \<longrightarrow> sample_angles P = [- 15, - 5, 5, 15]) \<and>
   (passes_tests P g \<longrightarrow> check_grasp P env cloud i g st = Inr st' \<longrightarrow>
      (\<exists>new. trace st' = trace st @ new \<and>
         map ev_tag (filter is_ik new) =
           concat (map (\<lambda>j. [(i, j, 0), (i, j, 1)]) [0..<length (sample_angles P)]) \<and>
         (\<forall>j k p s. IK_Solved i j k p s \<in> set new \<longrightarrow>
            (\<exists>quats.
               calculateHandOrientations P env
                 (rotateGrasp (GraspEigen_of env g) (sample_angles P ! j)) = Inr quats \<and>
               p = createGraspPose P (rotateGrasp (GraspEigen_of env g) (sample_angles P ! j))
                     (quats ! k) (sample_angles P ! j))))) \<and>
   (passes_tests P g \<longrightarrow>
    axis_order P = [a0, a1, a2] \<longrightarrow> a0 \<in> {0, 1, 2} \<longrightarrow> a1 \<in> {0, 1, 2} \<longrightarrow> a2 \<in> {0, 1, 2} \<longrightarrow>
    (\<forall>w p. \<exists>r. solveIK P env w p (default_attempts env) (default_timeout env) = Inr r) \<longrightarrow>
      (\<exists>st1 new.
         check_grasp P env cloud i g st = Inr st1 \<and>
         trace st1 = trace st @ new \<and>
         map ev_tag (filter is_ik new) =
           concat (map (\<lambda>j. [(i, j, 0), (i, j, 1)]) [0..<length (sample_angles P)]) \<and>
         (\<forall>j<length (sample_angles P). \<forall>k<2.
            \<exists>p s quats.
               IK_Solved i j k p s \<in> set new \<and>
               calculateHandOrientations P env
                 (rotateGrasp (GraspEigen_of env g) (sample_angles P ! j)) = Inr quats \<and>
               p = createGraspPose P (rotateGrasp (GraspEigen_of env g) (sample_angles P ! j))
                     (quats ! k) (sample_angles P ! j))))"
proof -
  have zero: "sample_angles P = [0]" if "num_additional_grasps P = 0"
    using that by (simp add: sample_angles_def)
  have pos: "length (sample_angles P) = nat (num_additional_grasps P) + 1 \<and>
      (\<forall>n\<le>nat (num_additional_grasps P).
         sample_angles P ! n = - 15 + real n * (30 / real_of_int (num_additional_grasps P))) \<and>
      sample_angles P ! 0 = - 15 \<and>
      sample_angles P ! nat (num_additional_grasps P) = 15"
    if k: "0 < num_additional_grasps P"
  proof -
    define n where "n = nat (1 + num_additional_grasps P)"
    have n: "1 < n" "n - 1 = nat (num_additional_grasps P)"
      "real (n - 1) = real_of_int (num_additional_grasps P)"
      using k by (simp_all add: n_def)
    have sa: "sample_angles P = LinSpaced n (- 15) 15"
      using k by (simp add: sample_angles_def n_def)
    have len: "length (sample_angles P) = nat (num_additional_grasps P) + 1"
      using LinSpaced_nth(1) [OF n(1), of 0] n by (simp add: sa)
    have nth: "sample_angles P ! m = - 15 + real m * (30 / real_of_int (num_additional_grasps P))"
      if "m \<le> nat (num_additional_grasps P)" for m
    proof -
      from that n have "m < n" by simp
      from LinSpaced_nth(2) [OF n(1) this, of "- 15" 15]
      have "sample_angles P ! m = - 15 + real m * ((15 - - 15) / real (n - 1))"
        by (simp only: sa)
      then show ?thesis
        unfolding n(3) by simp
    qed
    have first: "sample_angles P ! 0 = - 15"
      using nth [of 0] by simp
    have last: "sample_angles P ! nat (num_additional_grasps P) = 15"
      using nth [of "nat (num_additional_grasps P)"] k by simp
    from len nth first last show ?thesis by blast
  qed
  have three: "sample_angles P = [- 15, - 5, 5, 15]" if "num_additional_grasps P = 3"
    using that by (simp add: sample_angles_def LinSpaced_def upt_conv_Cons)
  have frames: "\<exists>new. trace st2 = trace st @ new \<and>
         map ev_tag (filter is_ik new) =
           concat (map (\<lambda>j. [(i, j, 0), (i, j, 1)]) [0..<length (sample_angles P)]) \<and>
         (\<forall>j k p s. IK_Solved i j k p s \<in> set new \<longrightarrow>
            (\<exists>quats.
               calculateHandOrientations P env
                 (rotateGrasp (GraspEigen_of env g) (sample_angles P ! j)) = Inr quats \<and>
               p = createGraspPose P (rotateGrasp (GraspEigen_of env g) (sample_angles P ! j))
                     (quats ! k) (sample_angles P ! j)))"
    if pass: "passes_tests P g" and run: "check_grasp P env cloud i g st = Inr st2" for st2
  proof -
    from pass run
    have "angles_loop P env cloud i g (GraspEigen_of env g) 0 (sample_angles P) st = Inr st2"
      by (auto simp: check_grasp_def passes_tests_def split: if_splits)
    from angles_loop_trace [OF this] obtain new
      where tr: "trace st2 = trace st @ new"
        and at: "angles_trace P env cloud i g (GraspEigen_of env g) 0 (sample_angles P) new"
      by blast
    have tags: "map ev_tag (filter is_ik new) =
           concat (map (\<lambda>j. [(i, j, 0), (i, j, 1)]) [0..<length (sample_angles P)])"
      using angles_trace_ik_tags [OF at] by simp
    have poses: "\<exists>quats.
               calculateHandOrientations P env
                 (rotateGrasp (GraspEigen_of env g) (sample_angles P ! j)) = Inr quats \<and>
               p = createGraspPose P (rotateGrasp (GraspEigen_of env g) (sample_angles P ! j))
                     (quats ! k) (sample_angles P ! j)"
      if "IK_Solved i j k p s \<in> set new" for j k p s
      using angles_trace_ik_pose [OF at that] by auto
    from tr tags poses show ?thesis by blast
  qed
  have total: "\<exists>st1 new.
         check_grasp P env cloud i g st = Inr st1 \<and>
         trace st1 = trace st @ new \<and>
         map ev_tag (filter is_ik new) =
           concat (map (\<lambda>j. [(i, j, 0), (i, j, 1)]) [0..<length (sample_angles P)]) \<and>
         (\<forall>j<length (sample_angles P). \<forall>k<2.
            \<exists>p s quats.
               IK_Solved i j k p s \<in> set new \<and>
               calculateHandOrientations P env
                 (rotateGrasp (GraspEigen_of env g) (sample_angles P ! j)) = Inr quats \<and>
               p = createGraspPose P (rotateGrasp (GraspEigen_of env g) (sample_angles P ! j))
                     (quats ! k) (sample_angles P ! j))"
    if pass: "passes_tests P g"
      and ao: "axis_order P = [a0, a1, a2]" "a0 \<in> {0, 1, 2}" "a1 \<in> {0, 1, 2}" "a2 \<in> {0, 1, 2}"
      and ik: "\<forall>w p. \<exists>r. solveIK P env w p (default_attempts env) (default_timeout env) = Inr r"
  proof -
    from ik have ik': "\<And>w p. \<exists>r. solveIK P env w p (default_attempts env) (default_timeout env) = Inr r"
      by blast
    from angles_loop_returns [OF ik' ao] obtain st1 where
      loop: "angles_loop P env cloud i g (GraspEigen_of env g) 0 (sample_angles P) st = Inr st1"
      by blast
    with pass have run: "check_grasp P env cloud i g st = Inr st1"
      by (simp add: check_grasp_def passes_tests_def)
    from frames [OF pass run] obtain new where
      tr: "trace st1 = trace st @ new"
      and tags: "map ev_tag (filter is_ik new) =
           concat (map (\<lambda>j. [(i, j, 0), (i, j, 1)]) [0..<length (sample_angles P)])"
      and poses: "\<And>j k p s. IK_Solved i j k p s \<in> set new \<Longrightarrow>
            (\<exists>quats.
               calculateHandOrientations P env
                 (rotateGrasp (GraspEigen_of env g) (sample_angles P ! j)) = Inr quats \<and>
               p = createGraspPose P (rotateGrasp (GraspEigen_of env g) (sample_angles P ! j))
                     (quats ! k) (sample_angles P ! j))"
      by blast
    have each: "\<exists>p s quats.
               IK_Solved i j k p s \<in> set new \<and>
               calculateHandOrientations P env
                 (rotateGrasp (GraspEigen_of env g) (sample_angles P ! j)) = Inr quats \<and>
               p = createGraspPose P (rotateGrasp (GraspEigen_of env g) (sample_angles P ! j))
                     (quats ! k) (sample_angles P ! j)"
      if "j < length (sample_angles P)" "k < 2" for j k
    proof -
      from frame_tag_listed [OF that, where i = i]
      have "(i, j, k) \<in> set (map ev_tag (filter is_ik new))"
        unfolding tags .
      from ik_tag_event [OF this] obtain p s where ev: "IK_Solved i j k p s \<in> set new"
        by blast
      from poses [OF ev] ev show ?thesis by blast
    qed
    from run tr tags each show ?thesis by blast
  qed
  from zero pos three frames total show ?thesis by blast
qed

subsection \<open>Pre-filtering and the order of the output\<close>




subsection \<open>Concrete runs\<close>

lemma example_rotateGrasp:
  "rotateGrasp (GraspEigen_of robot_answers example_grasp) 0 = example_rot"
  by (simp add: rotateGrasp_def robot_answers_def example_grasp_def example_rot_def
      mat_vec_def AngleAxis_def Let_def)

lemma example_orientations:
  "calculateHandOrientations launch_params robot_answers example_rot = Inr [quat_A, quat_B]"
  by (simp add: calculateHandOrientations_def hand_frames_def example_rot_def launch_params_def
      robot_answers_def quat_A_def quat_B_def reorderHandAxes_def set_col_def Zero3_def
      vzero_def mat_vec_def AngleAxis_def Let_def)

lemma example_poses:
  "createGraspPose launch_params example_rot quat_A 0 = pose_A"
  "createGraspPose launch_params example_rot quat_B 0 = pose_B"
  by (simp_all add: createGraspPose_def launch_params_def example_rot_def pose_A_def
      pose_B_def Let_def)

lemma example_solveIK:
  "solveIK launch_params robot_answers w p (default_attempts robot_answers)
     (default_timeout robot_answers) = Inr (ik_found, Suc w)"
  by (simp add: solveIK_def solveIKMoveIt_def launch_params_def robot_answers_def
      extractJointPositions_def NO_IK_SOLUTION_def ik_found_def Let_def)

lemma example_collision:
  "isCollisionFree launch_params [] pose_A (approach example_rot)"
  "\<not> isCollisionFree launch_params blocking_cloud pose_A (approach example_rot)"
  "\<not> isCollisionFree launch_params blocking_cloud pose_B (approach example_rot)"
  by (simp_all add: isCollisionFree_def launch_params_def pose_A_def pose_B_def
      example_rot_def blocking_cloud_def inside_cylinder_def squaredNorm_def Let_def)


lemma example_tests:
  "isInWorkspace launch_params (vx (surface_center example_grasp))
     (vy (surface_center example_grasp)) (vz (surface_center example_grasp))"
  "\<not> width example_grasp < min_aperture launch_params"
  "\<not> width example_grasp > max_aperture launch_params"
  "sample_angles launch_params = [0]"
  by (simp_all add: isInWorkspace_def launch_params_def example_grasp_def sample_angles_def)

lemma example_entries:
  "make_entry 0 example_grasp example_rot pose_A ik_found = entry_A"
  "make_entry 0 example_grasp example_rot pose_B ik_found = entry_B"
  by (simp_all add: make_entry_def example_grasp_def example_rot_def ik_found_def entry_A_def
      entry_B_def)

lemma example_step_A:
  "try_orientation launch_params robot_answers cloud 0 example_grasp 0 0 example_rot 0 quat_A
     False start_state =
   Inr (isCollisionFree launch_params cloud pose_A (approach example_rot),
        \<lparr> world = 1,
          grasps_selected =
            (if isCollisionFree launch_params cloud pose_A (approach example_rot)
             then [entry_A] else []),
          trace = [IK_Solved 0 0 0 pose_A ik_found,
                   Collision_Checked 0 0 0
                     (isCollisionFree launch_params cloud pose_A (approach example_rot))] @
            (if isCollisionFree launch_params cloud pose_A (approach example_rot)
             then [Grasp_Emitted 0 0 0 entry_A] else []) \<rparr>)"
  by (simp add: try_orientation_Inr [OF example_solveIK] example_poses example_entries
      orientation_events_def start_state_def)
    (simp add: ik_found_def)

lemma example_frame:
  "check_frame launch_params robot_answers cloud 0 example_grasp
     (GraspEigen_of robot_answers example_grasp) 0 0 start_state =
   Inr (if isCollisionFree launch_params cloud pose_A (approach example_rot)
        then \<lparr> world = 2, grasps_selected = [entry_A, entry_B],
               trace = [IK_Solved 0 0 0 pose_A ik_found, Collision_Checked 0 0 0 True,
                        Grasp_Emitted 0 0 0 entry_A, IK_Solved 0 0 1 pose_B ik_found,
                        Grasp_Emitted 0 0 1 entry_B] \<rparr>
        else \<lparr> world = 2, grasps_selected = [],
               trace = [IK_Solved 0 0 0 pose_A ik_found, Collision_Checked 0 0 0 False,
                        IK_Solved 0 0 1 pose_B ik_found, Collision_Checked 0 0 1 False] \<rparr>)"
proof -
  have same: "isCollisionFree launch_params cloud pose_B (approach example_rot) =
      isCollisionFree launch_params cloud pose_A (approach example_rot)"
    by (simp add: isCollisionFree_def pose_A_def pose_B_def)
  show ?thesis
    by (simp add: check_frame_def example_rotateGrasp example_orientations
        try_orientation_Inr [OF example_solveIK] example_poses example_entries
        orientation_events_def start_state_def same)
      (simp add: ik_found_def)
qed

lemma example_run:
  "selectFeasibleGrasps launch_params robot_answers cloud 0 [example_grasp] =
   Inr (if isCollisionFree launch_params cloud pose_A (approach example_rot)
        then \<lparr> world = 2, grasps_selected = [entry_A, entry_B],
               trace = [IK_Solved 0 0 0 pose_A ik_found, Collision_Checked 0 0 0 True,
                        Grasp_Emitted 0 0 0 entry_A, IK_Solved 0 0 1 pose_B ik_found,
                        Grasp_Emitted 0 0 1 entry_B] \<rparr>
        else \<lparr> world = 2, grasps_selected = [],
               trace = [IK_Solved 0 0 0 pose_A ik_found, Collision_Checked 0 0 0 False,
                        IK_Solved 0 0 1 pose_B ik_found, Collision_Checked 0 0 1 False] \<rparr>)"
  using example_frame [of cloud]
  by (simp add: selectFeasibleGrasps_def check_grasp_def example_tests
      start_state_def [symmetric])


lemma example_run_blocked:
  "selectFeasibleGrasps launch_params robot_answers blocking_cloud 0 [example_grasp]
     = Inr blocked_state"
  using example_run [of blocking_cloud] by (simp add: example_collision(2) blocked_state_def)

lemma example_frame_free:
  "check_frame launch_params robot_answers [] 0 example_grasp
     (GraspEigen_of robot_answers example_grasp) 0 0 start_state = Inr free_state"
  using example_frame [of "[]"] by (simp add: example_collision(1) free_state_def)

lemma example_grasp_free:
  "check_grasp launch_params robot_answers [] 0 example_grasp start_state = Inr free_state"
  using example_frame_free by (simp add: check_grasp_def example_tests)

theorem check_frame_collision_memo_witness:
  "check_frame launch_params robot_answers [] 0 example_grasp
     (GraspEigen_of robot_answers example_grasp) 0 0 start_state = Inr free_state \<and>
   (\<exists>qA qB ikA ikB.
      filter is_ik (trace free_state) =
        [IK_Solved 0 0 0
           (createGraspPose launch_params
              (rotateGrasp (GraspEigen_of robot_answers example_grasp) 0) qA 0) ikA,
         IK_Solved 0 0 1
           (createGraspPose launch_params
              (rotateGrasp (GraspEigen_of robot_answers example_grasp) 0) qB 0) ikB]) \<and>
   length (filter is_check (trace free_state)) = 1"
proof -
  from check_frame_collision_memo [OF example_frame_free] obtain qA qB ikA ikB new where
    tr: "trace free_state = trace start_state @ new"
    and iks: "filter is_ik new =
        [IK_Solved 0 0 0
           (createGraspPose launch_params
              (rotateGrasp (GraspEigen_of robot_answers example_grasp) 0) qA 0) ikA,
         IK_Solved 0 0 1
           (createGraspPose launch_params
              (rotateGrasp (GraspEigen_of robot_answers example_grasp) 0) qB 0) ikB]"
    by blast
  from tr have "new = trace free_state"
    by (simp add: start_state_def)
  with iks have "\<exists>qA qB ikA ikB.
      filter is_ik (trace free_state) =
        [IK_Solved 0 0 0
           (createGraspPose launch_params
              (rotateGrasp (GraspEigen_of robot_answers example_grasp) 0) qA 0) ikA,
         IK_Solved 0 0 1
           (createGraspPose launch_params
              (rotateGrasp (GraspEigen_of robot_answers example_grasp) 0) qB 0) ikB]"
    by blast
  moreover have "length (filter is_check (trace free_state)) = 1"
    by (simp add: free_state_def)
  ultimately show ?thesis
    using example_frame_free by blast
qed

text \<open>
  The claim as first stated fails on a frame that collides while both IK calls succeed:
  the checker runs once for each orientation (a reported collision is not kept by the
  flag), and orientation B is pose-tested against IK all the same.
\<close>

theorem collision_checked_twice_counterexample:
  "selectFeasibleGrasps launch_params robot_answers blocking_cloud 0 [example_grasp]
     = Inr blocked_state \<and>
   filter is_check (trace blocked_state)
     = [Collision_Checked 0 0 0 False, Collision_Checked 0 0 1 False] \<and>
   filter is_ik (trace blocked_state)
     = [IK_Solved 0 0 0 pose_A ik_found, IK_Solved 0 0 1 pose_B ik_found]"
  using example_run_blocked by (simp add: blocked_state_def)

lemma sampling_solveIK:
  "solveIK sampling_params robot_answers w p (default_attempts robot_answers)
     (default_timeout robot_answers) = Inr (ik_found, Suc w)"
  by (simp add: solveIK_def solveIKMoveIt_def sampling_params_def launch_params_def
      robot_answers_def extractJointPositions_def NO_IK_SOLUTION_def ik_found_def Let_def)

lemma sampling_tests:
  "passes_tests sampling_params example_grasp"
  "axis_order sampling_params = [2, 0, 1]"
  "num_additional_grasps sampling_params = 3"
  by (simp_all add: passes_tests_def isInWorkspace_def sampling_params_def launch_params_def
      example_grasp_def)

text \<open>
  The shipped configuration samples the single angle 0; with three additional grasps the
  run on \<open>example_grasp\<close> calls IK for the four angles -15, -5, 5, 15 in turn, on poses of
  the frame rotated by each.
\<close>

theorem sample_angles_spec_witness:
  "sample_angles launch_params = [0] \<and>
   passes_tests launch_params example_grasp \<and>
   check_grasp launch_params robot_answers [] 0 example_grasp start_state = Inr free_state \<and>
   map ev_tag (filter is_ik (trace free_state)) = [(0, 0, 0), (0, 0, 1)] \<and>
   sample_angles sampling_params = [- 15, - 5, 5, 15] \<and>
   passes_tests sampling_params example_grasp \<and>
   (\<exists>st1.
      check_grasp sampling_params robot_answers [] 0 example_grasp start_state = Inr st1 \<and>
      map ev_tag (filter is_ik (trace st1)) =
        [(0, 0, 0), (0, 0, 1), (0, 1, 0), (0, 1, 1), (0, 2, 0), (0, 2, 1), (0, 3, 0), (0, 3, 1)] \<and>
      (\<exists>p s quats.
         IK_Solved 0 1 0 p s \<in> set (trace st1) \<and>
         calculateHandOrientations sampling_params robot_answers
           (rotateGrasp (GraspEigen_of robot_answers example_grasp) (- 5)) = Inr quats \<and>
         p = createGraspPose sampling_params
               (rotateGrasp (GraspEigen_of robot_answers example_grasp) (- 5)) (quats ! 0) (- 5)) \<and>
      (\<exists>p s quats.
         IK_Solved 0 3 1 p s \<in> set (trace st1) \<and>
         calculateHandOrientations sampling_params robot_answers
           (rotateGrasp (GraspEigen_of robot_answers example_grasp) 15) = Inr quats \<and>
         p = createGraspPose sampling_params
               (rotateGrasp (GraspEigen_of robot_answers example_grasp) 15) (quats ! 1) 15))"
proof -
  have k0: "num_additional_grasps launch_params = 0"
    by (simp add: launch_params_def)
  have pass: "passes_tests launch_params example_grasp"
    by (simp add: passes_tests_def example_tests)
  note t = sample_angles_spec [where P = launch_params and g = example_grasp
      and env = robot_answers and cloud = "[]" and i = 0 and st = start_state
      and st' = free_state]
  from t [THEN conjunct1] k0 have a0: "sample_angles launch_params = [0]" by simp
  from t [THEN conjunct2, THEN conjunct2, THEN conjunct2, THEN conjunct1, rule_format,
      OF pass example_grasp_free]
  obtain new where
    "trace free_state = trace start_state @ new"
    "map ev_tag (filter is_ik new) =
       concat (map (\<lambda>j. [(0, j, 0), (0, j, 1)]) [0..<length (sample_angles launch_params)])"
    by blast
  then have tags0: "map ev_tag (filter is_ik (trace free_state)) = [(0, 0, 0), (0, 0, 1)]"
    by (simp add: start_state_def a0)
  note u = sample_angles_spec [where P = sampling_params and g = example_grasp
      and env = robot_answers and cloud = "[]" and i = 0 and st = start_state
      and ?a0.0 = 2 and ?a1.0 = 0 and ?a2.0 = 1]
  from u [THEN conjunct2, THEN conjunct2, THEN conjunct1] sampling_tests(3)
  have a3: "sample_angles sampling_params = [- 15, - 5, 5, 15]" by simp
  have ik: "\<forall>w p. \<exists>r. solveIK sampling_params robot_answers w p
      (default_attempts robot_answers) (default_timeout robot_answers) = Inr r"
    using sampling_solveIK by blast
  have rng: "(2::int) \<in> {0, 1, 2}" "(0::int) \<in> {0, 1, 2}" "(1::int) \<in> {0, 1, 2}"
    by simp_all
  from u [THEN conjunct2, THEN conjunct2, THEN conjunct2, THEN conjunct2, THEN mp, THEN mp,
      THEN mp, THEN mp, THEN mp, THEN mp, OF sampling_tests(1) sampling_tests(2) rng ik]
  obtain st1 new where
    run: "check_grasp sampling_params robot_answers [] 0 example_grasp start_state = Inr st1"
    and tr: "trace st1 = trace start_state @ new"
    and tags: "map ev_tag (filter is_ik new) =
       concat (map (\<lambda>j. [(0, j, 0), (0, j, 1)]) [0..<length (sample_angles sampling_params)])"
    and each: "\<forall>j<length (sample_angles sampling_params). \<forall>k<2.
            \<exists>p s quats.
               IK_Solved 0 j k p s \<in> set new \<and>
               calculateHandOrientations sampling_params robot_answers
                 (rotateGrasp (GraspEigen_of robot_answers example_grasp)
                    (sample_angles sampling_params ! j)) = Inr quats \<and>
               p = createGraspPose sampling_params
                     (rotateGrasp (GraspEigen_of robot_answers example_grasp)
                        (sample_angles sampling_params ! j))
                     (quats ! k) (sample_angles sampling_params ! j)"
    by blast
  from tr have new: "new = trace st1"
    by (simp add: start_state_def)
  have tags3: "map ev_tag (filter is_ik (trace st1)) =
        [(0, 0, 0), (0, 0, 1), (0, 1, 0), (0, 1, 1), (0, 2, 0), (0, 2, 1), (0, 3, 0), (0, 3, 1)]"
    using tags unfolding new a3 by (simp add: upt_conv_Cons)
  from each [unfolded new a3, rule_format, of 1 0]
  have f1: "\<exists>p s quats.
         IK_Solved 0 1 0 p s \<in> set (trace st1) \<and>
         calculateHandOrientations sampling_params robot_answers
           (rotateGrasp (GraspEigen_of robot_answers example_grasp) (- 5)) = Inr quats \<and>
         p = createGraspPose sampling_params
               (rotateGrasp (GraspEigen_of robot_answers example_grasp) (- 5)) (quats ! 0) (- 5)"
    by simp
  from each [unfolded new a3, rule_format, of 3 1]
  have f3: "\<exists>p s quats.
         IK_Solved 0 3 1 p s \<in> set (trace st1) \<and>
         calculateHandOrientations sampling_params robot_answers
           (rotateGrasp (GraspEigen_of robot_answers example_grasp) 15) = Inr quats \<and>
         p = createGraspPose sampling_params
               (rotateGrasp (GraspEigen_of robot_answers example_grasp) 15) (quats ! 1) 15"
    by simp
  from run tags3 f1 f3 have big: "\<exists>st1.
      check_grasp sampling_params robot_answers [] 0 example_grasp start_state = Inr st1 \<and>
      map ev_tag (filter is_ik (trace st1)) =
        [(0, 0, 0), (0, 0, 1), (0, 1, 0), (0, 1, 1), (0, 2, 0), (0, 2, 1), (0, 3, 0), (0, 3, 1)] \<and>
      (\<exists>p s quats.
         IK_Solved 0 1 0 p s \<in> set (trace st1) \<and>
         calculateHandOrientations sampling_params robot_answers
           (rotateGrasp (GraspEigen_of robot_answers example_grasp) (- 5)) = Inr quats \<and>
         p = createGraspPose sampling_params
               (rotateGrasp (GraspEigen_of robot_answers example_grasp) (- 5)) (quats ! 0) (- 5)) \<and>
      (\<exists>p s quats.
         IK_Solved 0 3 1 p s \<in> set (trace st1) \<and>
         calculateHandOrientations sampling_params robot_answers
           (rotateGrasp (GraspEigen_of robot_answers example_grasp) 15) = Inr quats \<and>
         p = createGraspPose sampling_params
               (rotateGrasp (GraspEigen_of robot_answers example_grasp) 15) (quats ! 1) 15)"
    by (intro exI [of _ st1] conjI)
  from a0 pass example_grasp_free tags0 a3 sampling_tests(1) big show ?thesis
    by (intro conjI)
qed



end
